theory Spec2Isabelle
  imports Main
begin

unbundle bit_operations_syntax

section \<open>Text, as the Python sources use it\<close>

text \<open>
  A file holds bytes. A Python \<open>str\<close> is modelled by its UTF-8 encoding, a HOL \<open>string\<close>;
  concatenation and the f-strings of the sources are concatenation of the encodings.
  Reading a file in text mode decodes it strictly (the locale's encoding is taken to be
  UTF-8) and raises \<open>UnicodeDecodeError\<close> on bytes that are not well-formed UTF-8; it
  translates the line endings \<open>\r\n\<close> and \<open>\r\<close> to \<open>\n\<close> (universal newlines).
\<close>

text \<open>
  The well-formed byte sequences: after a lead byte, the state says in which range the next
  byte must lie and how many further continuation bytes follow it.
\<close>

fun utf8_scan :: "(nat \<times> nat \<times> nat) option \<Rightarrow> string \<Rightarrow> bool" where
  "utf8_scan None [] = True"
| "utf8_scan (Some expected) [] = False"
| "utf8_scan None (c # cs) =
     (let n = (of_char c :: nat) in
      if n \<le> 0x7F then utf8_scan None cs
      else if 0xC2 \<le> n \<and> n \<le> 0xDF then utf8_scan (Some (0x80, 0xBF, 0)) cs
      else if n = 0xE0 then utf8_scan (Some (0xA0, 0xBF, 1)) cs
      else if (0xE1 \<le> n \<and> n \<le> 0xEC) \<or> n = 0xEE \<or> n = 0xEF
        then utf8_scan (Some (0x80, 0xBF, 1)) cs
      else if n = 0xED then utf8_scan (Some (0x80, 0x9F, 1)) cs
      else if n = 0xF0 then utf8_scan (Some (0x90, 0xBF, 2)) cs
      else if 0xF1 \<le> n \<and> n \<le> 0xF3 then utf8_scan (Some (0x80, 0xBF, 2)) cs
      else if n = 0xF4 then utf8_scan (Some (0x80, 0x8F, 2)) cs
      else False)"
| "utf8_scan (Some (lo, hi, more)) (c # cs) =
     (let n = (of_char c :: nat) in
      if lo \<le> n \<and> n \<le> hi
      then utf8_scan (if more = 0 then None else Some (0x80, 0xBF, more - 1)) cs
      else False)"

definition utf8_valid :: "string \<Rightarrow> bool" where
  "utf8_valid bytes = utf8_scan None bytes"

fun universal_newlines :: "string \<Rightarrow> string" where
  "universal_newlines [] = []"
| "universal_newlines (c # cs) =
     (if c = CHR 0x0D then
        (case cs of
           [] \<Rightarrow> [CHR 0x0A]
         | d # ds \<Rightarrow> if d = CHR 0x0A then CHR 0x0A # universal_newlines ds
                    else CHR 0x0A # universal_newlines cs)
      else c # universal_newlines cs)"

text \<open>\<open>f.read()\<close> on a file opened with mode \<open>r\<close>; \<open>None\<close> is \<open>UnicodeDecodeError\<close>.\<close>

definition read_text :: "string \<Rightarrow> string option" where
  "read_text bytes = (if utf8_valid bytes then Some (universal_newlines bytes) else None)"

text \<open>
  The code points of a text, each as its bytes: a byte with the continuation bytes that
  follow it.
\<close>

definition is_continuation :: "char \<Rightarrow> bool" where
  "is_continuation c = (128 \<le> (of_char c :: nat) \<and> (of_char c :: nat) < 192)"

function codepoints :: "string \<Rightarrow> string list" where
  "codepoints [] = []"
| "codepoints (c # cs) =
     (c # takeWhile is_continuation cs) # codepoints (dropWhile is_continuation cs)"
  by pat_completeness auto
termination
  by (relation "measure length") (auto simp: length_dropWhile_le less_Suc_eq_le)

text \<open>
  The code points for which \<open>str.isspace\<close> holds, which are those \<open>str.strip()\<close> removes at
  both ends: U+0009 to U+000D, U+001C to U+0020, U+0085, U+00A0, U+1680, U+2000 to U+200A,
  U+2028, U+2029, U+202F, U+205F and U+3000.
\<close>

definition whitespace :: "string list" where
  "whitespace =
     [[CHR 0x09], [CHR 0x0A], [CHR 0x0B], [CHR 0x0C], [CHR 0x0D], [CHR 0x1C], [CHR 0x1D],
      [CHR 0x1E], [CHR 0x1F], [CHR 0x20], [CHR 0xC2, CHR 0x85], [CHR 0xC2, CHR 0xA0],
      [CHR 0xE1, CHR 0x9A, CHR 0x80], [CHR 0xE2, CHR 0x80, CHR 0x80], [CHR 0xE2, CHR 0x80, CHR 0x81],
      [CHR 0xE2, CHR 0x80, CHR 0x82], [CHR 0xE2, CHR 0x80, CHR 0x83], [CHR 0xE2, CHR 0x80, CHR 0x84],
      [CHR 0xE2, CHR 0x80, CHR 0x85], [CHR 0xE2, CHR 0x80, CHR 0x86], [CHR 0xE2, CHR 0x80, CHR 0x87],
      [CHR 0xE2, CHR 0x80, CHR 0x88], [CHR 0xE2, CHR 0x80, CHR 0x89], [CHR 0xE2, CHR 0x80, CHR 0x8A],
      [CHR 0xE2, CHR 0x80, CHR 0xA8], [CHR 0xE2, CHR 0x80, CHR 0xA9], [CHR 0xE2, CHR 0x80, CHR 0xAF],
      [CHR 0xE2, CHR 0x81, CHR 0x9F], [CHR 0xE3, CHR 0x80, CHR 0x80]]"

definition isspace :: "string \<Rightarrow> bool" where
  "isspace cp = (cp \<in> set whitespace)"

definition strip :: "string \<Rightarrow> string" where
  "strip s = concat (rev (dropWhile isspace (rev (dropWhile isspace (codepoints s)))))"

text \<open>\<open>len\<close> of a \<open>str\<close> counts code points.\<close>

definition py_len :: "string \<Rightarrow> nat" where
  "py_len s = length (codepoints s)"

text \<open>Decimal rendering of a natural number, as an f-string renders an \<open>int\<close>.\<close>

function str_of_nat :: "nat \<Rightarrow> string" where
  "str_of_nat n =
     (if n < 10 then [''0123456789'' ! n]
      else str_of_nat (n div 10) @ [''0123456789'' ! (n mod 10)])"
  by pat_completeness auto
termination
  by (relation "measure id") auto

section \<open>MD5 (\<open>hashlib.md5(...).hexdigest()\<close>)\<close>

text \<open>
  The digest of RFC 1321 on 32-bit words, held as integers below \<open>2 ^ 32\<close>: per step the
  additive constant, the rotation and the index of the message word.
\<close>

definition md5_K :: "int list" where
  "md5_K =
     [0xd76aa478, 0xe8c7b756, 0x242070db, 0xc1bdceee,
      0xf57c0faf, 0x4787c62a, 0xa8304613, 0xfd469501,
      0x698098d8, 0x8b44f7af, 0xffff5bb1, 0x895cd7be,
      0x6b901122, 0xfd987193, 0xa679438e, 0x49b40821,
      0xf61e2562, 0xc040b340, 0x265e5a51, 0xe9b6c7aa,
      0xd62f105d, 0x02441453, 0xd8a1e681, 0xe7d3fbc8,
      0x21e1cde6, 0xc33707d6, 0xf4d50d87, 0x455a14ed,
      0xa9e3e905, 0xfcefa3f8, 0x676f02d9, 0x8d2a4c8a,
      0xfffa3942, 0x8771f681, 0x6d9d6122, 0xfde5380c,
      0xa4beea44, 0x4bdecfa9, 0xf6bb4b60, 0xbebfbc70,
      0x289b7ec6, 0xeaa127fa, 0xd4ef3085, 0x04881d05,
      0xd9d4d039, 0xe6db99e5, 0x1fa27cf8, 0xc4ac5665,
      0xf4292244, 0x432aff97, 0xab9423a7, 0xfc93a039,
      0x655b59c3, 0x8f0ccc92, 0xffeff47d, 0x85845dd1,
      0x6fa87e4f, 0xfe2ce6e0, 0xa3014314, 0x4e0811a1,
      0xf7537e82, 0xbd3af235, 0x2ad7d2bb, 0xeb86d391]"

definition md5_s :: "nat list" where
  "md5_s =
     [7, 12, 17, 22, 7, 12, 17, 22, 7, 12, 17, 22, 7, 12, 17, 22,
      5, 9, 14, 20, 5, 9, 14, 20, 5, 9, 14, 20, 5, 9, 14, 20,
      4, 11, 16, 23, 4, 11, 16, 23, 4, 11, 16, 23, 4, 11, 16, 23,
      6, 10, 15, 21, 6, 10, 15, 21, 6, 10, 15, 21, 6, 10, 15, 21]"

definition md5_g :: "nat list" where
  "md5_g =
     [0, 1, 2, 3, 4, 5, 6, 7, 8, 9, 10, 11, 12, 13, 14, 15,
      1, 6, 11, 0, 5, 10, 15, 4, 9, 14, 3, 8, 13, 2, 7, 12,
      5, 8, 11, 14, 1, 4, 7, 10, 13, 0, 3, 6, 9, 12, 15, 2,
      0, 7, 14, 5, 12, 3, 10, 1, 8, 15, 6, 13, 4, 11, 2, 9]"

definition w32 :: "int \<Rightarrow> int" where
  "w32 x = x mod 4294967296"

definition rotl32 :: "nat \<Rightarrow> int \<Rightarrow> int" where
  "rotl32 n x = w32 (x * 2 ^ n) + x div 2 ^ (32 - n)"

definition not32 :: "int \<Rightarrow> int" where
  "not32 x = 4294967295 - x"

type_synonym md5_state = "int \<times> int \<times> int \<times> int"

definition md5_f :: "nat \<Rightarrow> int \<Rightarrow> int \<Rightarrow> int \<Rightarrow> int" where
  "md5_f round b c d =
     (if round = 0 then (b AND c) OR (not32 b AND d)
      else if round = 1 then (d AND b) OR (not32 d AND c)
      else if round = 2 then b XOR c XOR d
      else c XOR (b OR not32 d))"

fun md5_steps :: "int list \<Rightarrow> nat \<Rightarrow> (int \<times> nat \<times> nat) list \<Rightarrow> md5_state \<Rightarrow> md5_state" where
  "md5_steps M i [] st = st"
| "md5_steps M i ((k, s, g) # rest) (a, b, c, d) =
     md5_steps M (Suc i) rest
       (d, w32 (b + rotl32 s (w32 (a + md5_f (i div 16) b c d + k + M ! g))), b, c)"

definition md5_block :: "md5_state \<Rightarrow> int list \<Rightarrow> md5_state" where
  "md5_block st M =
     (case st of (a0, b0, c0, d0) \<Rightarrow>
        (case md5_steps M 0 (zip md5_K (zip md5_s md5_g)) st of
           (a, b, c, d) \<Rightarrow> (w32 (a0 + a), w32 (b0 + b), w32 (c0 + c), w32 (d0 + d))))"

definition le_bytes :: "nat \<Rightarrow> int \<Rightarrow> int list" where
  "le_bytes k n = map (\<lambda>i. (n div 256 ^ i) mod 256) [0..<k]"

definition md5_pad :: "int list \<Rightarrow> int list" where
  "md5_pad msg =
     msg @ [128] @ replicate ((119 - length msg mod 64) mod 64) 0 @
     le_bytes 8 ((8 * int (length msg)) mod 2 ^ 64)"

fun le_word :: "int list \<Rightarrow> int" where
  "le_word [] = 0"
| "le_word (b # bs) = b + 256 * le_word bs"

fun md5_words :: "nat \<Rightarrow> int list \<Rightarrow> int list" where
  "md5_words 0 bytes = []"
| "md5_words (Suc n) bytes = le_word (take 4 bytes) # md5_words n (drop 4 bytes)"

fun md5_blocks :: "nat \<Rightarrow> int list \<Rightarrow> md5_state \<Rightarrow> md5_state" where
  "md5_blocks 0 bytes st = st"
| "md5_blocks (Suc n) bytes st =
     md5_blocks n (drop 64 bytes) (md5_block st (md5_words 16 (take 64 bytes)))"

definition md5_digest :: "int list \<Rightarrow> int list" where
  "md5_digest msg =
     (let bytes = md5_pad msg in
      case md5_blocks (length bytes div 64) bytes
             (0x67452301, 0xefcdab89, 0x98badcfe, 0x10325476) of
        (a, b, c, d) \<Rightarrow> concat (map (le_bytes 4) [a, b, c, d]))"

definition hex_byte :: "int \<Rightarrow> string" where
  "hex_byte n =
     [''0123456789abcdef'' ! nat (n div 16), ''0123456789abcdef'' ! nat (n mod 16)]"

definition md5_hexdigest :: "string \<Rightarrow> string" where
  "md5_hexdigest bytes = concat (map hex_byte (md5_digest (map of_char bytes)))"


section \<open>JSON output of a string-to-string dictionary\<close>

text \<open>
  \<open>json.dump(d, f, indent=2)\<close> for a dictionary from \<open>str\<close> to \<open>str\<close>, in insertion order.
  Strings are escaped as \<open>json\<close> does with \<open>ensure_ascii\<close> for ASCII text; the two tables
  the sources dump are printable ASCII.
\<close>

definition hex4 :: "nat \<Rightarrow> string" where
  "hex4 n = [CHR ''0'', CHR ''0'',
             ''0123456789abcdef'' ! ((n div 16) mod 16),
             ''0123456789abcdef'' ! (n mod 16)]"

definition json_escape_char :: "char \<Rightarrow> string" where
  \<open>json_escape_char c =
     (if c = CHR ''"'' then [CHR 0x5C, CHR ''"'']
      else if c = CHR 0x5C then [CHR 0x5C, CHR 0x5C]
      else if c = CHR 0x0A then [CHR 0x5C, CHR ''n'']
      else if c = CHR 0x0D then [CHR 0x5C, CHR ''r'']
      else if c = CHR 0x09 then [CHR 0x5C, CHR ''t'']
      else if c = CHR 0x08 then [CHR 0x5C, CHR ''b'']
      else if c = CHR 0x0C then [CHR 0x5C, CHR ''f'']
      else if (of_char c :: nat) < 32 \<or> (of_char c :: nat) = 127
        then [CHR 0x5C, CHR ''u''] @ hex4 (of_char c)
      else [c])\<close>

definition json_string :: "string \<Rightarrow> string" where
  \<open>json_string s = [CHR ''"''] @ concat (map json_escape_char s) @ [CHR ''"'']\<close>

definition json_item :: "string \<times> string \<Rightarrow> string" where
  "json_item kv = ''  '' @ json_string (fst kv) @ '': '' @ json_string (snd kv)"

fun join :: "string \<Rightarrow> string list \<Rightarrow> string" where
  "join sep [] = []"
| "join sep [x] = x"
| "join sep (x # y # ys) = x @ sep @ join sep (y # ys)"

definition json_dump_indent2 :: "(string \<times> string) list \<Rightarrow> string" where
  "json_dump_indent2 d =
     (if d = [] then ''{}''
      else ''{'' @ [CHR 0x0A] @ join ('','' @ [CHR 0x0A]) (map json_item d) @ [CHR 0x0A] @ ''}'')"

section \<open>Dictionaries, the file system and the environment\<close>

text \<open>
  A \<open>dict\<close> whose insertion order matters when it is dumped is an association list;
  \<open>k in d\<close> and \<open>d.get(k, default)\<close> go through \<open>map_of\<close>.
\<close>

type_synonym dict = "(string \<times> string) list"

definition dict_contains :: "dict \<Rightarrow> string \<Rightarrow> bool" where
  "dict_contains d k = (map_of d k \<noteq> None)"

definition dict_get :: "dict \<Rightarrow> string \<Rightarrow> string \<Rightarrow> string" where
  "dict_get d k dflt = (case map_of d k of Some v \<Rightarrow> v | None \<Rightarrow> dflt)"

text \<open>
  The file system maps a path (relative to the installation directory) to the bytes of
  the file there. Writing is taken to succeed; the directories are created by the
  constructors and carry no content.
\<close>

type_synonym fs = "string \<rightharpoonup> string"

definition chat_file :: string where
  "chat_file = ''inbox/chat.txt''"

definition inbox_file :: "string \<Rightarrow> string" where
  "inbox_file agent = ''inbox/'' @ agent @ ''.md''"

definition outbox_file :: "string \<Rightarrow> string" where
  "outbox_file agent = ''outbox/'' @ agent @ ''.md''"

definition log_file :: string where
  "log_file = ''logs/messages.log''"

definition rules_file :: string where
  "rules_file = ''config/routing_rules.json''"

definition assignments_file :: string where
  "assignments_file = ''config/model_assignments.json''"

definition prompt_file :: "string \<Rightarrow> string" where
  "prompt_file agent = ''prompts/'' @ agent @ ''.txt''"

text \<open>
  \<open>with open(path, 'w') as f: f.write(s)\<close> is two steps: opening creates the file or
  truncates it, and the content is there once it is written and the file closed.
\<close>

definition open_w :: "fs \<Rightarrow> string \<Rightarrow> fs" where
  "open_w files path = files(path \<mapsto> [])"

definition write_text :: "fs \<Rightarrow> string \<Rightarrow> string \<Rightarrow> fs" where
  "write_text files path s = (open_w files path)(path \<mapsto> s)"

definition append_text :: "fs \<Rightarrow> string \<Rightarrow> string \<Rightarrow> fs" where
  "append_text files path s =
     files(path \<mapsto> (case files path of None \<Rightarrow> s | Some old \<Rightarrow> old @ s))"

text \<open>
  The library functions that depend on the running Python and are not modelled here:
  \<open>json.load\<close> (\<open>None\<close> when it raises \<open>JSONDecodeError\<close>, a subclass of \<open>ValueError\<close>),
  and \<open>str.lower\<close> and \<open>str.title\<close>, which follow the Unicode database of the interpreter.
\<close>

record env =
  json_load :: "string \<Rightarrow> dict option"
  str_lower :: "string \<Rightarrow> string"
  str_title :: "string \<Rightarrow> string"

datatype py_error =
  ValueError string | JSONDecodeError | UnicodeDecodeError | FileNotFoundError

text \<open>
  A call of the language-model service and what it gives back: the text of the first
  content block, or the exception the \<open>try\<close> block catches with its message.
\<close>

record request =
  req_model :: string
  req_max_tokens :: nat
  req_prompt :: string

datatype api_result = ApiOk string | ApiError string

text \<open>
  What the outside world answers during one polling cycle: the service, and the clock at
  each place the cycle reads it (already formatted by \<open>strftime\<close>); \<open>elapsed\<close> is the
  processing time as \<open>:.2f\<close> renders it.
\<close>

record io =
  messages_create :: "request \<Rightarrow> api_result"
  now_classify_error :: string
  now_route :: string
  now_route_log :: string
  now_interaction :: string
  now_output :: string
  elapsed :: string


section \<open>The router (\<open>router.py\<close>)\<close>

record router =
  routing_rules :: dict
  last_chat_hash :: "string option"

definition default_rules :: dict where
  "default_rules =
     [(''feature_request'', ''planner''),
      (''code_question'', ''helper''),
      (''ui_request'', ''designer''),
      (''bug_fix'', ''coder''),
      (''code_review'', ''reviewer''),
      (''testing'', ''tester''),
      (''general'', ''helper'')]"

text \<open>
  \<open>load_routing_rules\<close>: the persisted rules when the file exists, else the default rules,
  which are written to the file.
\<close>

definition load_routing_rules :: "env \<Rightarrow> fs \<Rightarrow> py_error + (dict \<times> fs)" where
  "load_routing_rules e files =
     (case files rules_file of
        Some content \<Rightarrow>
          (case json_load e content of
             None \<Rightarrow> Inl JSONDecodeError
           | Some rules \<Rightarrow> Inr (rules, files))
      | None \<Rightarrow> Inr (default_rules, write_text files rules_file (json_dump_indent2 default_rules)))"

text \<open>The constructor: the rules are loaded once, and no message has been seen.\<close>

definition router_init :: "env \<Rightarrow> fs \<Rightarrow> py_error + (router \<times> fs)" where
  "router_init e files =
     (case load_routing_rules e files of
        Inl err \<Rightarrow> Inl err
      | Inr (rules, files') \<Rightarrow>
          Inr (\<lparr>routing_rules = rules, last_chat_hash = None\<rparr>, files'))"

text \<open>\<open>get_file_hash\<close>: the digest of the bytes of the file as they are.\<close>

definition get_file_hash :: "fs \<Rightarrow> string \<Rightarrow> string option" where
  "get_file_hash files path =
     (case files path of None \<Rightarrow> None | Some bytes \<Rightarrow> Some (md5_hexdigest bytes))"

definition log_message :: "fs \<Rightarrow> string \<Rightarrow> string \<Rightarrow> fs" where
  "log_message files timestamp message =
     append_text files log_file (''['' @ timestamp @ ''] '' @ message @ ''\<newline>'')"

definition classification_prompt :: "string \<Rightarrow> string" where
  \<open>classification_prompt message =
     ''\<newline>'' @
     ''You are a message classifier for ClaudeStack, a multi-agent AI development framework.\<newline>'' @
     ''\<newline>'' @
     ''Analyze the following user message and classify it into ONE of these categories:\<newline>'' @
     ''- feature_request: User wants to build/add a new feature\<newline>'' @
     ''- code_question: User has questions about existing code or general programming\<newline>'' @
     ''- ui_request: User wants UI/UX design or frontend work\<newline>'' @
     ''- bug_fix: User reports a bug or wants something fixed\<newline>'' @
     ''- code_review: User wants code reviewed\<newline>'' @
     ''- testing: User wants tests written or testing help\<newline>'' @
     ''- general: Anything else\<newline>'' @
     ''\<newline>'' @
     ''User message: "'' @ message @ ''"\<newline>'' @
     ''\<newline>'' @
     ''Respond with ONLY the category name (e.g., "feature_request").\<newline>''\<close>

definition classification_request :: "string \<Rightarrow> request" where
  "classification_request message =
     \<lparr>req_model = ''claude-3-5-sonnet-20241022'', req_max_tokens = 50,
      req_prompt = classification_prompt message\<rparr>"

text \<open>
  \<open>classify_intent\<close>: the answer of the service, trimmed and lower-cased, when it is a key
  of the routing rules; \<open>general\<close> otherwise, and also when the call raises, which is
  logged.
\<close>

definition classify_intent :: "env \<Rightarrow> router \<Rightarrow> io \<Rightarrow> fs \<Rightarrow> string \<Rightarrow> string \<times> fs" where
  "classify_intent e r w files message =
     (case messages_create w (classification_request message) of
        ApiOk text \<Rightarrow>
          (let intent = str_lower e (strip text) in
           if dict_contains (routing_rules r) intent then (intent, files)
           else (''general'', files))
      | ApiError err \<Rightarrow>
          (''general'',
           log_message files (now_classify_error w) (''Error classifying intent: '' @ err)))"

definition routed_content :: "string \<Rightarrow> string \<Rightarrow> string \<Rightarrow> string" where
  "routed_content timestamp intent message =
     ''# New Request - '' @ timestamp @ ''\<newline>'' @
     ''\<newline>'' @
     ''**Intent:** '' @ intent @ ''\<newline>'' @
     ''**Original Message:**\<newline>'' @
     ''\<newline>'' @
     message @ ''\<newline>'' @
     ''\<newline>'' @
     ''---\<newline>''"


definition route_message :: "router \<Rightarrow> io \<Rightarrow> fs \<Rightarrow> string \<Rightarrow> string \<Rightarrow> string \<times> fs" where
  "route_message r w files message intent =
     (let target_agent = dict_get (routing_rules r) intent ''helper'';
          target_file = inbox_file target_agent;
          timestamp = now_route w;
          files1 = write_text files target_file (routed_content timestamp intent message);
          log_entry = ''['' @ timestamp @ ''] Routed user query (intent: '' @ intent @
                      '') to '' @ target_agent
      in (target_agent, log_message files1 (now_route_log w) log_entry))"

text \<open>
  \<open>process_chat_input\<close>: one polling cycle of the router. The cycle reads the shared inbox
  twice, first for the digest and then for the text; \<open>files_hash\<close> and \<open>files\<close> are the
  file system at the two reads, which differ only when another process writes in between.
  The result is the exception that leaves the cycle, or whether a message was routed, with
  the router and the file system after the cycle.
\<close>

definition process_chat_input_at ::
  "env \<Rightarrow> router \<Rightarrow> io \<Rightarrow> fs \<Rightarrow> fs \<Rightarrow> py_error + (bool \<times> router \<times> fs)" where
  "process_chat_input_at e r w files_hash files =
     (case files_hash chat_file of
        None \<Rightarrow> Inr (False, r, files_hash)
      | Some hashed \<Rightarrow>
          (let current_hash = get_file_hash files_hash chat_file in
           if current_hash = last_chat_hash r then Inr (False, r, files_hash)
           else
             (case files chat_file of
                None \<Rightarrow> Inl FileNotFoundError
              | Some bytes \<Rightarrow>
                  (case read_text bytes of
                     None \<Rightarrow> Inl UnicodeDecodeError
                   | Some text \<Rightarrow>
                       (let message = strip text in
                        if message = [] then Inr (False, r, files)
                        else
                          (let (intent, files1) = classify_intent e r w files message;
                               (target_agent, files2) = route_message r w files1 message intent
                           in Inr (True, r\<lparr>last_chat_hash := current_hash\<rparr>, files2)))))))"

text \<open>The cycle when no other process writes during it.\<close>

definition process_chat_input :: "env \<Rightarrow> router \<Rightarrow> io \<Rightarrow> fs \<Rightarrow> py_error + (bool \<times> router \<times> fs)" where
  "process_chat_input e r w files = process_chat_input_at e r w files files"

text \<open>
  \<open>run\<close>: the polling loop, over the cycles of a finite run. Between two cycles (during
  the sleep) the outside world may change the files. An exception of a cycle ends the loop.
\<close>

fun router_run ::
  "env \<Rightarrow> router \<Rightarrow> fs \<Rightarrow> ((fs \<Rightarrow> fs) \<times> io) list \<Rightarrow> py_error + (router \<times> fs)" where
  "router_run e r files [] = Inr (r, files)"
| "router_run e r files ((outside, w) # cycles) =
     (case process_chat_input e r w (outside files) of
        Inl err \<Rightarrow> Inl err
      | Inr (routed, r', files') \<Rightarrow> router_run e r' files' cycles)"


section \<open>The agent runner (\<open>agents/agent_runner.py\<close>)\<close>

record agent =
  agent_name :: string
  model :: string
  prompt_template :: string
  last_input_hash :: "string option"

definition default_assignments :: dict where
  "default_assignments =
     [(''chat'', ''claude-3-5-sonnet-20241022''),
      (''planner'', ''claude-3-opus-20240229''),
      (''tasker'', ''claude-3-5-sonnet-20241022''),
      (''coder'', ''claude-3-5-sonnet-20241022''),
      (''reviewer'', ''claude-3-opus-20240229''),
      (''tester'', ''claude-3-5-sonnet-20241022''),
      (''designer'', ''claude-3-opus-20240229''),
      (''frontend'', ''claude-3-5-sonnet-20241022''),
      (''helper'', ''claude-3-5-sonnet-20241022'')]"

text \<open>
  \<open>load_model_assignment\<close>: the model of the agent in the persisted assignments, or in the
  default ones (which are then written to the file); an agent without an entry gets
  \<open>claude-3-5-sonnet-20241022\<close>.
\<close>

definition load_model_assignment :: "env \<Rightarrow> fs \<Rightarrow> string \<Rightarrow> py_error + (string \<times> fs)" where
  "load_model_assignment e files name =
     (case files assignments_file of
        Some content \<Rightarrow>
          (case json_load e content of
             None \<Rightarrow> Inl JSONDecodeError
           | Some assignments \<Rightarrow>
               Inr (dict_get assignments name ''claude-3-5-sonnet-20241022'', files))
      | None \<Rightarrow>
          Inr (dict_get default_assignments name ''claude-3-5-sonnet-20241022'',
               write_text files assignments_file (json_dump_indent2 default_assignments)))"

subsection \<open>The built-in prompts\<close>

definition chat_prompt :: string where
  \<open>chat_prompt =
     ''\<newline>'' @
     ''You are Claude-Chat, the main interface for ClaudeStack.\<newline>'' @
     ''\<newline>'' @
     ''Your role:\<newline>'' @
     ''- Receive user input and understand their intent\<newline>'' @
     ''- Provide helpful responses when appropriate\<newline>'' @
     ''- The router will handle directing complex requests to other agents\<newline>'' @
     ''\<newline>'' @
     ''Be conversational, helpful, and professional. If a user asks something that would be better handled by a specialist agent, acknowledge their request and let them know it's being routed appropriately.\<newline>''\<close>

definition planner_prompt :: string where
  \<open>planner_prompt =
     ''\<newline>'' @
     ''You are Claude-Planner, an expert in breaking down software feature requests into clear technical plans.\<newline>'' @
     ''\<newline>'' @
     ''Input: A user request for a feature or system.\<newline>'' @
     ''Output: A markdown plan with these sections:\<newline>'' @
     ''- '' @
     [CHR 0xF0, CHR 0x9F, CHR 0x93, CHR 0x8C] @
     '' **Objective**: Clear statement of what needs to be built\<newline>'' @
     ''- '' @
     [CHR 0xF0, CHR 0x9F, CHR 0x9B, CHR 0xA0] @
     '' **Implementation Plan**: Detailed bullet points covering:\<newline>'' @
     ''  - Architecture decisions\<newline>'' @
     ''  - Key components needed\<newline>'' @
     ''  - Technology choices\<newline>'' @
     ''  - Integration points\<newline>'' @
     ''  - Potential challenges\<newline>'' @
     ''\<newline>'' @
     ''Be precise, include system boundaries, and consider scalability and maintainability.\<newline>''\<close>

definition tasker_prompt :: string where
  \<open>tasker_prompt =
     ''\<newline>'' @
     ''You are Claude-Tasker. Your job is to convert planning docs into atomic developer tasks.\<newline>'' @
     ''\<newline>'' @
     ''Input: Claude-Planner's implementation plan.\<newline>'' @
     ''Output: Markdown task list, formatted as:\<newline>'' @
     ''- [ ] Task Name - brief description (estimated time)\<newline>'' @
     ''\<newline>'' @
     ''Rules:\<newline>'' @
     ''- Each task should be completable in < 30 minutes ideally\<newline>'' @
     ''- Tasks should be specific and actionable\<newline>'' @
     ''- Include setup, implementation, and testing tasks\<newline>'' @
     ''- Order tasks logically (dependencies first)\<newline>'' @
     ''- Be clear about what "done" looks like for each task\<newline>''\<close>

definition coder_prompt :: string where
  \<open>coder_prompt =
     ''\<newline>'' @
     ''You are Claude-Coder. You write clean, efficient, production-ready code based on task descriptions.\<newline>'' @
     ''\<newline>'' @
     ''Input: One specific development task.\<newline>'' @
     ''Output: Complete code implementation with:\<newline>'' @
     ''- Well-commented, readable code\<newline>'' @
     ''- Error handling where appropriate\<newline>'' @
     ''- Following best practices for the language/framework\<newline>'' @
     ''- Include any necessary imports/dependencies\<newline>'' @
     ''\<newline>'' @
     ''Focus on code quality, security, and maintainability. If the task is unclear, ask for clarification.\<newline>''\<close>

definition reviewer_prompt :: string where
  \<open>reviewer_prompt =
     ''\<newline>'' @
     ''You are Claude-Reviewer. You provide thorough, constructive code reviews.\<newline>'' @
     ''\<newline>'' @
     ''Input: Code implementation from Claude-Coder.\<newline>'' @
     ''Output: Detailed review covering:\<newline>'' @
     ''- '' @
     [CHR 0xE2, CHR 0x9C, CHR 0x85] @
     '' **Strengths**: What's done well\<newline>'' @
     ''- '' @
     [CHR 0xE2, CHR 0x9A, CHR 0xA0, CHR 0xEF, CHR 0xB8, CHR 0x8F] @
     '' **Issues**: Problems that need fixing (security, bugs, performance)\<newline>'' @
     ''- '' @
     [CHR 0xF0, CHR 0x9F, CHR 0x92, CHR 0xA1] @
     '' **Suggestions**: Improvements for readability, maintainability\<newline>'' @
     ''- '' @
     [CHR 0xF0, CHR 0x9F, CHR 0x8E, CHR 0xAF] @
     '' **Verdict**: APPROVED / NEEDS_CHANGES / MAJOR_REVISION\<newline>'' @
     ''\<newline>'' @
     ''Be thorough but constructive. Focus on code quality, security, performance, and best practices.\<newline>''\<close>

definition tester_prompt :: string where
  \<open>tester_prompt =
     ''\<newline>'' @
     ''You are Claude-Tester. You write comprehensive tests and identify potential issues.\<newline>'' @
     ''\<newline>'' @
     ''Input: Code implementation or feature description.\<newline>'' @
     ''Output: Test suite including:\<newline>'' @
     ''- Unit tests for individual functions\<newline>'' @
     ''- Integration tests for component interactions\<newline>'' @
     ''- Edge case testing\<newline>'' @
     ''- Error condition testing\<newline>'' @
     ''- Performance considerations\<newline>'' @
     ''\<newline>'' @
     ''Use appropriate testing frameworks and follow testing best practices. Include both positive and negative test cases.\<newline>''\<close>

definition designer_prompt :: string where
  \<open>designer_prompt =
     ''\<newline>'' @
     ''You are Claude-Designer, a UI/UX architect focused on user experience.\<newline>'' @
     ''\<newline>'' @
     ''Input: Feature requirements or user interface needs.\<newline>'' @
     ''Output: Design specification including:\<newline>'' @
     ''- '' @
     [CHR 0xF0, CHR 0x9F, CHR 0x8E, CHR 0xA8] @
     '' **User Experience Flow**: Step-by-step user journey\<newline>'' @
     ''- '' @
     [CHR 0xF0, CHR 0x9F, CHR 0x93, CHR 0xB1] @
     '' **Interface Design**: Layout and component descriptions\<newline>'' @
     ''- '' @
     [CHR 0xF0, CHR 0x9F, CHR 0x8E, CHR 0xAF] @
     '' **Key Interactions**: How users will interact with the feature\<newline>'' @
     ''- '' @
     [CHR 0xF0, CHR 0x9F, CHR 0x93, CHR 0x8B] @
     '' **Component List**: Specific UI components needed\<newline>'' @
     ''- '' @
     [CHR 0xF0, CHR 0x9F, CHR 0x92, CHR 0xA1] @
     '' **Design Principles**: Accessibility, usability considerations\<newline>'' @
     ''\<newline>'' @
     ''Keep designs simple, user-friendly, and implementable. Focus on solving user problems effectively.\<newline>''\<close>

definition frontend_prompt :: string where
  \<open>frontend_prompt =
     ''\<newline>'' @
     ''You are Claude-Frontend. You implement UI components based on design specifications.\<newline>'' @
     ''\<newline>'' @
     ''Input: UI component descriptions, wireframes, or design specs.\<newline>'' @
     ''Output: Frontend code including:\<newline>'' @
     ''- HTML structure\<newline>'' @
     ''- CSS styling (responsive design)\<newline>'' @
     ''- JavaScript functionality\<newline>'' @
     ''- Framework-specific code (React, Vue, etc.) if specified\<newline>'' @
     ''\<newline>'' @
     ''Create clean, accessible, and responsive interfaces. Follow modern web standards and best practices.\<newline>''\<close>

definition helper_prompt :: string where
  \<open>helper_prompt =
     ''\<newline>'' @
     ''You are Claude-Helper, a general-purpose coding assistant.\<newline>'' @
     ''\<newline>'' @
     ''Your role:\<newline>'' @
     ''- Answer questions about code architecture and logic\<newline>'' @
     ''- Explain complex programming concepts\<newline>'' @
     ''- Provide guidance on tools and technologies\<newline>'' @
     ''- Help debug issues\<newline>'' @
     ''- Offer best practice recommendations\<newline>'' @
     ''\<newline>'' @
     ''Be helpful, educational, and provide practical advice. Include examples when helpful.\<newline>''\<close>

definition prompts :: dict where
  "prompts =
     [(''chat'', chat_prompt),
      (''planner'', planner_prompt),
      (''tasker'', tasker_prompt),
      (''coder'', coder_prompt),
      (''reviewer'', reviewer_prompt),
      (''tester'', tester_prompt),
      (''designer'', designer_prompt),
      (''frontend'', frontend_prompt),
      (''helper'', helper_prompt)]"

definition generic_prompt :: "env \<Rightarrow> string \<Rightarrow> string" where
  "generic_prompt e name =
     ''\<newline>'' @
     ''You are Claude-'' @ str_title e name @ '', a specialized AI assistant.\<newline>'' @
     ''\<newline>'' @
     ''Please provide helpful and accurate responses based on your role.\<newline>''"

definition get_default_prompt :: "env \<Rightarrow> string \<Rightarrow> string" where
  "get_default_prompt e name = dict_get prompts name (generic_prompt e name)"

text \<open>
  \<open>load_prompt_template\<close>: the persisted template, trimmed, or else the default prompt,
  which is written to the file and returned as it is.
\<close>

definition load_prompt_template :: "env \<Rightarrow> fs \<Rightarrow> string \<Rightarrow> py_error + (string \<times> fs)" where
  "load_prompt_template e files name =
     (case files (prompt_file name) of
        Some bytes \<Rightarrow>
          (case read_text bytes of
             None \<Rightarrow> Inl UnicodeDecodeError
           | Some text \<Rightarrow> Inr (strip text, files))
      | None \<Rightarrow>
          (let default_prompt = get_default_prompt e name
           in Inr (default_prompt, write_text files (prompt_file name) default_prompt)))"

text \<open>
  The constructor, given the value of the environment variable \<open>ANTHROPIC_API_KEY\<close>:
  it raises \<open>ValueError\<close> when the key is unset or empty, then resolves the model and the
  prompt template of the agent.
\<close>

definition agent_init :: "env \<Rightarrow> fs \<Rightarrow> string option \<Rightarrow> string \<Rightarrow> py_error + (agent \<times> fs)" where
  "agent_init e files api_key name =
     (if api_key = None \<or> api_key = Some []
      then Inl (ValueError ''ANTHROPIC_API_KEY environment variable not set'')
      else
        (case load_model_assignment e files name of
           Inl err \<Rightarrow> Inl err
         | Inr (m, files1) \<Rightarrow>
             (case load_prompt_template e files1 name of
                Inl err \<Rightarrow> Inl err
              | Inr (template, files2) \<Rightarrow>
                  Inr (\<lparr>agent_name = name, model = m, prompt_template = template,
                        last_input_hash = None\<rparr>, files2))))"

definition log_entry :: "env \<Rightarrow> agent \<Rightarrow> string \<Rightarrow> string \<Rightarrow> string \<Rightarrow> string \<Rightarrow> string" where
  "log_entry e a timestamp input_text output_text processing_time =
     ''\<newline>'' @
     ''['' @ timestamp @ ''] Claude-'' @ str_title e (agent_name a) @
       '' processed request\<newline>'' @
     ''Processing time: '' @ processing_time @ ''s\<newline>'' @
     ''Model: '' @ model a @ ''\<newline>'' @
     ''Input length: '' @ str_of_nat (py_len input_text) @ '' chars\<newline>'' @
     ''Output length: '' @ str_of_nat (py_len output_text) @ '' chars\<newline>'' @
     ''---\<newline>''"

definition log_interaction ::
  "env \<Rightarrow> agent \<Rightarrow> fs \<Rightarrow> string \<Rightarrow> string \<Rightarrow> string \<Rightarrow> string \<Rightarrow> fs" where
  "log_interaction e a files timestamp input_text output_text processing_time =
     append_text files log_file
       (log_entry e a timestamp input_text output_text processing_time)"

definition full_prompt :: "agent \<Rightarrow> string \<Rightarrow> string" where
  "full_prompt a input_text =
     prompt_template a @ ''\<newline>'' @
     ''\<newline>'' @
     ''---\<newline>'' @
     ''\<newline>'' @
     ''User Input:\<newline>'' @
     input_text"

definition generation_request :: "agent \<Rightarrow> string \<Rightarrow> request" where
  "generation_request a input_text =
     \<lparr>req_model = model a, req_max_tokens = 4000, req_prompt = full_prompt a input_text\<rparr>"

text \<open>
  \<open>process_input\<close>: the text of the service's answer, after the interaction is logged;
  when the call raises, the error message, and nothing is logged.
\<close>

definition process_input :: "env \<Rightarrow> agent \<Rightarrow> io \<Rightarrow> fs \<Rightarrow> string \<Rightarrow> string \<times> fs" where
  "process_input e a w files input_text =
     (case messages_create w (generation_request a input_text) of
        ApiOk output_text \<Rightarrow>
          (output_text,
           log_interaction e a files (now_interaction w) input_text output_text (elapsed w))
      | ApiError err \<Rightarrow> (''Error processing request: '' @ err, files))"

definition output_content :: "env \<Rightarrow> agent \<Rightarrow> string \<Rightarrow> string \<Rightarrow> string" where
  "output_content e a timestamp output =
     ''# Claude-'' @ str_title e (agent_name a) @ '' Output - '' @ timestamp @ ''\<newline>'' @
     ''\<newline>'' @
     output @ ''\<newline>'' @
     ''\<newline>'' @
     ''---\<newline>'' @
     ''*Generated by ClaudeStack Agent Runner*\<newline>''"

text \<open>
  \<open>check_for_input\<close>: one polling cycle of an agent. The cycle reads the inbox of the agent
  twice, first for the digest and then for the text; \<open>files_hash\<close> and \<open>files\<close> are the
  file system at the two reads, which differ only when another process (the router) writes
  in between. The result is the exception that leaves the cycle, or whether an input was
  processed, with the agent and the file system after the cycle.
\<close>

definition check_for_input_at ::
  "env \<Rightarrow> agent \<Rightarrow> io \<Rightarrow> fs \<Rightarrow> fs \<Rightarrow> py_error + (bool \<times> agent \<times> fs)" where
  "check_for_input_at e a w files_hash files =
     (case files_hash (inbox_file (agent_name a)) of
        None \<Rightarrow> Inr (False, a, files_hash)
      | Some hashed \<Rightarrow>
          (let current_hash = get_file_hash files_hash (inbox_file (agent_name a)) in
           if current_hash = last_input_hash a \<or> current_hash = None
           then Inr (False, a, files_hash)
           else
             (case files (inbox_file (agent_name a)) of
                None \<Rightarrow> Inl FileNotFoundError
              | Some bytes \<Rightarrow>
                  (case read_text bytes of
                     None \<Rightarrow> Inl UnicodeDecodeError
                   | Some text \<Rightarrow>
                       (let input_text = strip text in
                        if input_text = [] then Inr (False, a, files)
                        else
                          (let (output, files1) = process_input e a w files input_text;
                               files2 = write_text files1 (outbox_file (agent_name a))
                                          (output_content e a (now_output w) output)
                           in Inr (True, a\<lparr>last_input_hash := current_hash\<rparr>, files2)))))))"

text \<open>The cycle when no other process writes during it.\<close>

definition check_for_input :: "env \<Rightarrow> agent \<Rightarrow> io \<Rightarrow> fs \<Rightarrow> py_error + (bool \<times> agent \<times> fs)" where
  "check_for_input e a w files = check_for_input_at e a w files files"

fun agent_run ::
  "env \<Rightarrow> agent \<Rightarrow> fs \<Rightarrow> ((fs \<Rightarrow> fs) \<times> io) list \<Rightarrow> py_error + (agent \<times> fs)" where
  "agent_run e a files [] = Inr (a, files)"
| "agent_run e a files ((outside, w) # cycles) =
     (case check_for_input e a w (outside files) of
        Inl err \<Rightarrow> Inl err
      | Inr (processed, a', files') \<Rightarrow> agent_run e a' files' cycles)"


section \<open>A concrete environment for the worked instances\<close>

text \<open>
  Stand-ins for the library functions that are parameters: \<open>json.load\<close> reads back the
  dictionaries listed, and \<open>str.lower\<close> and \<open>str.title\<close> are given on ASCII letters, where
  they agree with Python; the worked instances apply them to ASCII text only.
\<close>

definition ascii_uppercase :: string where
  "ascii_uppercase = ''ABCDEFGHIJKLMNOPQRSTUVWXYZ''"

definition ascii_lowercase :: string where
  "ascii_lowercase = ''abcdefghijklmnopqrstuvwxyz''"

definition lower_char :: "char \<Rightarrow> char" where
  "lower_char c = (case map_of (zip ascii_uppercase ascii_lowercase) c of
                     Some d \<Rightarrow> d | None \<Rightarrow> c)"

definition upper_char :: "char \<Rightarrow> char" where
  "upper_char c = (case map_of (zip ascii_lowercase ascii_uppercase) c of
                     Some d \<Rightarrow> d | None \<Rightarrow> c)"

definition is_cased :: "char \<Rightarrow> bool" where
  "is_cased c = (c \<in> set ascii_uppercase \<or> c \<in> set ascii_lowercase)"

definition ascii_lower :: "string \<Rightarrow> string" where
  "ascii_lower s = map lower_char s"

fun title_from :: "bool \<Rightarrow> string \<Rightarrow> string" where
  "title_from prev [] = []"
| "title_from prev (c # cs) =
     (if prev then lower_char c else upper_char c) # title_from (is_cased c) cs"

definition ascii_title :: "string \<Rightarrow> string" where
  "ascii_title s = title_from False s"

definition edited_rules :: dict where
  "edited_rules = [(''deploy'', ''ops''), (''bug_fix'', ''coder'')]"

definition demo_env :: env where
  "demo_env =
     \<lparr>json_load = map_of [(json_dump_indent2 default_rules, default_rules),
                          (json_dump_indent2 default_assignments, default_assignments),
                          (json_dump_indent2 edited_rules, edited_rules)],
      str_lower = ascii_lower,
      str_title = ascii_title\<rparr>"

definition demo_io :: "api_result \<Rightarrow> io" where
  "demo_io answer =
     \<lparr>messages_create = (\<lambda>req. answer),
      now_classify_error = ''2025-01-01 10:00:00'',
      now_route = ''2025-01-01 10:00:01'',
      now_route_log = ''2025-01-01 10:00:02'',
      now_interaction = ''2025-01-01 10:00:03'',
      now_output = ''2025-01-01 10:00:04'',
      elapsed = ''1.50''\<rparr>"

definition demo_router :: router where
  "demo_router = \<lparr>routing_rules = default_rules, last_chat_hash = None\<rparr>"

definition demo_agent :: agent where
  "demo_agent =
     \<lparr>agent_name = ''coder'', model = ''claude-3-5-sonnet-20241022'',
      prompt_template = coder_prompt, last_input_hash = None\<rparr>"

text \<open>
  Two texts of 72 bytes that differ in one letter and have the same MD5 digest.
\<close>

definition textcoll_a :: string where
  "textcoll_a = ''TEXTCOLLBYfGiJUETHQ4hAcKSMd5zYpgqf1YRDhkmxHkhPWptrkoyz28wnI9V0aHeAuaKnak''"

definition textcoll_b :: string where
  "textcoll_b = ''TEXTCOLLBYfGiJUETHQ4hEcKSMd5zYpgqf1YRDhkmxHkhPWptrkoyz28wnI9V0aHeAuaKnak''"


section \<open>Basic facts about the file operations and the cycles\<close>

lemma md_not_txt: "t @ ''.md'' \<noteq> ''chat.txt''"
proof
  assume "t @ ''.md'' = ''chat.txt''"
  then have "last (t @ ''.md'') = last ''chat.txt''" by simp
  then show False by simp
qed

lemma chat_not_inbox: "chat_file \<noteq> inbox_file t"
  using md_not_txt [of t] by (auto simp: chat_file_def inbox_file_def)

lemma chat_not_log: "chat_file \<noteq> log_file"
  by (simp add: chat_file_def log_file_def)

lemma inbox_not_log: "inbox_file n \<noteq> log_file"
  by (simp add: inbox_file_def log_file_def)

lemma inbox_not_outbox: "inbox_file n \<noteq> outbox_file m"
  by (simp add: inbox_file_def outbox_file_def)

lemma outbox_not_log: "outbox_file n \<noteq> log_file"
  by (simp add: outbox_file_def log_file_def)

lemma assignments_not_prompt: "assignments_file \<noteq> prompt_file n"
  by (simp add: assignments_file_def prompt_file_def)

lemma write_text_eq: "write_text files path s = files(path \<mapsto> s)"
  by (simp add: write_text_def open_w_def)

lemma log_message_other: "p \<noteq> log_file \<Longrightarrow> log_message files t m p = files p"
  by (simp add: log_message_def append_text_def)

lemma classify_intent_other:
  "p \<noteq> log_file \<Longrightarrow> snd (classify_intent e r w files m) p = files p"
  by (simp add: classify_intent_def Let_def log_message_other split: api_result.splits)

lemma classify_intent_result:
  "fst (classify_intent e r w files m) =
     (case messages_create w (classification_request m) of
        ApiOk answer \<Rightarrow>
          if dict_contains (routing_rules r) (str_lower e (strip answer))
          then str_lower e (strip answer) else ''general''
      | ApiError err \<Rightarrow> ''general'')"
  by (simp add: classify_intent_def Let_def split: api_result.splits)

lemma route_message_other:
  "p \<noteq> log_file \<Longrightarrow> p \<noteq> inbox_file (dict_get (routing_rules r) i ''helper'') \<Longrightarrow>
   snd (route_message r w files m i) p = files p"
  by (simp add: route_message_def Let_def log_message_other write_text_eq)

lemma route_message_target:
  "fst (route_message r w files m i) = dict_get (routing_rules r) i ''helper''"
  by (simp add: route_message_def Let_def)

lemma route_message_envelope:
  "snd (route_message r w files m i) (inbox_file (dict_get (routing_rules r) i ''helper'')) =
   Some (routed_content (now_route w) i m)"
  by (simp add: route_message_def Let_def log_message_other inbox_not_log write_text_eq)

lemma unchanged_chat_poll:
  "files chat_file = Some bytes \<Longrightarrow> last_chat_hash r = Some (md5_hexdigest bytes) \<Longrightarrow>
   process_chat_input e r w files = Inr (False, r, files)"
  by (simp add: process_chat_input_def process_chat_input_at_def get_file_hash_def)

lemma changed_chat_poll:
  assumes "files chat_file = Some bytes" and "read_text bytes = Some decoded"
    and "strip decoded \<noteq> []" and "last_chat_hash r \<noteq> Some (md5_hexdigest bytes)"
  shows "process_chat_input e r w files =
         Inr (True, r\<lparr>last_chat_hash := Some (md5_hexdigest bytes)\<rparr>,
              snd (route_message r w (snd (classify_intent e r w files (strip decoded)))
                     (strip decoded) (fst (classify_intent e r w files (strip decoded)))))"
  using assms
  by (auto simp add: process_chat_input_def process_chat_input_at_def get_file_hash_def Let_def
      split: prod.splits)

lemma process_input_other:
  "p \<noteq> log_file \<Longrightarrow> snd (process_input e a w files t) p = files p"
  by (simp add: process_input_def log_interaction_def append_text_def split: api_result.splits)

lemma process_input_error:
  "messages_create w (generation_request a t) = ApiError err \<Longrightarrow>
   process_input e a w files t = (''Error processing request: '' @ err, files)"
  by (simp add: process_input_def)

lemma process_input_ok:
  "messages_create w (generation_request a t) = ApiOk out \<Longrightarrow>
   process_input e a w files t =
     (out, append_text files log_file (log_entry e a (now_interaction w) t out (elapsed w)))"
  by (simp add: process_input_def log_interaction_def)

lemma unchanged_inbox_poll:
  "files (inbox_file (agent_name a)) = Some bytes \<Longrightarrow>
   last_input_hash a = Some (md5_hexdigest bytes) \<Longrightarrow>
   check_for_input e a w files = Inr (False, a, files)"
  by (simp add: check_for_input_def check_for_input_at_def get_file_hash_def)

lemma changed_inbox_poll_at:
  assumes "files_hash (inbox_file (agent_name a)) = Some hashed"
    and "last_input_hash a \<noteq> Some (md5_hexdigest hashed)"
    and "files (inbox_file (agent_name a)) = Some bytes" and "read_text bytes = Some decoded"
    and "strip decoded \<noteq> []"
  shows "check_for_input_at e a w files_hash files =
         Inr (True, a\<lparr>last_input_hash := Some (md5_hexdigest hashed)\<rparr>,
              (snd (process_input e a w files (strip decoded)))
                (outbox_file (agent_name a) \<mapsto>
                   output_content e a (now_output w)
                     (fst (process_input e a w files (strip decoded)))))"
  using assms
  by (auto simp add: check_for_input_at_def get_file_hash_def Let_def write_text_eq
      split: prod.splits)

lemma changed_inbox_poll:
  assumes "files (inbox_file (agent_name a)) = Some bytes" and "read_text bytes = Some decoded"
    and "strip decoded \<noteq> []" and "last_input_hash a \<noteq> Some (md5_hexdigest bytes)"
  shows "check_for_input e a w files =
         Inr (True, a\<lparr>last_input_hash := Some (md5_hexdigest bytes)\<rparr>,
              (snd (process_input e a w files (strip decoded)))
                (outbox_file (agent_name a) \<mapsto>
                   output_content e a (now_output w)
                     (fst (process_input e a w files (strip decoded)))))"
  using assms by (simp add: check_for_input_def changed_inbox_poll_at)

lemma load_model_assignment_other:
  "load_model_assignment e files name = Inr (m, files') \<Longrightarrow> p \<noteq> assignments_file \<Longrightarrow>
   files' p = files p"
  by (auto simp: load_model_assignment_def write_text_eq split: option.splits)

subsection \<open>The rendering of the default rules, and the stand-in for \<open>json.load\<close>\<close>


lemma demo_load_edited: "json_load demo_env (json_dump_indent2 edited_rules) = Some edited_rules"
  by code_simp

lemma demo_load_assignments:
  "json_load demo_env (json_dump_indent2 default_assignments) = Some default_assignments"
  by code_simp

subsection \<open>The digest has 32 characters, so it cannot tell all contents apart\<close>

lemma length_hex_bytes: "length (concat (map hex_byte xs)) = 2 * length xs"
  by (induction xs) (simp_all add: hex_byte_def)

lemma length_md5_digest: "length (md5_digest m) = 16"
  by (simp add: md5_digest_def Let_def le_bytes_def split: prod.splits)

lemma length_md5_hexdigest: "length (md5_hexdigest s) = 32"
  by (simp add: md5_hexdigest_def length_hex_bytes length_md5_digest)

lemma md5_not_injective_on_padding:
  "\<exists>j k. j \<noteq> k \<and>
     md5_hexdigest (CHR ''a'' # replicate j (CHR '' '')) =
     md5_hexdigest (CHR ''a'' # replicate k (CHR '' ''))"
proof -
  let ?f = "\<lambda>k::nat. md5_hexdigest (CHR ''a'' # replicate k (CHR '' ''))"
  have "range ?f \<subseteq> {xs. set xs \<subseteq> UNIV \<and> length xs = 32}"
    by (auto simp: length_md5_hexdigest)
  moreover have "finite {xs :: string. set xs \<subseteq> UNIV \<and> length xs = 32}"
    by (rule finite_lists_length_eq) simp
  ultimately have "finite (range ?f)"
    by (rule finite_subset)
  then have "\<not> inj ?f"
    using finite_imageD infinite_UNIV_nat by blast
  then show ?thesis
    by (auto simp: inj_on_def)
qed

subsection \<open>Reading and trimming ASCII text\<close>

lemma utf8_scan_ascii: "\<forall>c\<in>set s. (of_char c :: nat) \<le> 0x7F \<Longrightarrow> utf8_scan None s"
  by (induction s) (simp_all add: Let_def)

lemma universal_newlines_no_cr: "CHR 0x0D \<notin> set s \<Longrightarrow> universal_newlines s = s"
  by (induction s) auto

lemma codepoints_single_bytes:
  "\<forall>c\<in>set s. \<not> is_continuation c \<Longrightarrow> codepoints s = map (\<lambda>c. [c]) s"
proof (induction s)
  case Nil
  then show ?case by simp
next
  case (Cons c cs)
  then have "takeWhile is_continuation cs = []" and "dropWhile is_continuation cs = cs"
    by (cases cs; simp)+
  with Cons show ?case by simp
qed

lemma padding_facts:
  "(of_char (CHR ''a'') :: nat) \<le> 0x7F" "(of_char (CHR '' '') :: nat) \<le> 0x7F"
  "\<not> is_continuation (CHR ''a'')" "\<not> is_continuation (CHR '' '')"
  "\<not> isspace [CHR ''a'']" "isspace [CHR '' '']"
  by code_simp+

lemma read_text_padded:
  "read_text (CHR ''a'' # replicate k (CHR '' '')) = Some (CHR ''a'' # replicate k (CHR '' ''))"
proof -
  have "utf8_scan None (CHR ''a'' # replicate k (CHR '' ''))"
    by (rule utf8_scan_ascii) (use padding_facts in auto)
  moreover have "universal_newlines (CHR ''a'' # replicate k (CHR '' '')) =
                 CHR ''a'' # replicate k (CHR '' '')"
    by (rule universal_newlines_no_cr) auto
  ultimately show ?thesis
    by (simp add: read_text_def utf8_valid_def)
qed

lemma strip_padded: "strip (CHR ''a'' # replicate k (CHR '' '')) = ''a''"
proof -
  have c: "codepoints (CHR ''a'' # replicate k (CHR '' '')) =
           [CHR ''a''] # replicate k [CHR '' '']"
    using padding_facts by (subst codepoints_single_bytes) (auto simp: map_replicate)
  have d: "dropWhile isspace (replicate k [CHR '' ''] @ [[CHR ''a'']]) = [[CHR ''a'']]"
    using padding_facts by (subst dropWhile_append2) auto
  show ?thesis
    using padding_facts by (simp add: strip_def c d del: codepoints.simps)
qed

subsection \<open>The texts of the worked instances\<close>

lemma read_fix: "read_text ''fix the login bug'' = Some ''fix the login bug''"
  by code_simp

lemma strip_fix: "strip ''fix the login bug'' = ''fix the login bug''"
  by code_simp

lemma read_fix_nl: "read_text ''fix the login bug\<newline>'' = Some ''fix the login bug\<newline>''"
  by code_simp

lemma strip_fix_nl: "strip ''fix the login bug\<newline>'' = ''fix the login bug''"
  by code_simp

lemma md5_fix: "md5_hexdigest ''fix the login bug'' = ''5a6d62974e208a9d47081bbe9e599fd2''"
  by code_simp

lemma md5_fix_nl: "md5_hexdigest ''fix the login bug\<newline>'' = ''a3e5f0d14db461de65c0252d4e3bd234''"
  by code_simp


lemma md5_textcoll:
  "md5_hexdigest textcoll_a = ''faad49866e9498fc1719f5289e7a0269''"
  "md5_hexdigest textcoll_b = ''faad49866e9498fc1719f5289e7a0269''"
  by code_simp+

lemma textcoll_text:
  "textcoll_a \<noteq> textcoll_b"
  "read_text textcoll_a = Some textcoll_a" "strip textcoll_a = textcoll_a"
  "read_text textcoll_b = Some textcoll_b" "strip textcoll_b = textcoll_b"
  "textcoll_a \<noteq> []" "textcoll_b \<noteq> []"
  by code_simp+

lemma title_coder: "str_title demo_env ''coder'' = ''Coder''"
  by code_simp

lemma title_ops: "str_title demo_env ''ops'' = ''Ops''"
  by code_simp


section \<open>Resolving the profile of an agent\<close>

text \<open>
  C1, as the claim states it, fails: the agent \<open>ops\<close>, which the persisted routing rules
  name and which has no model assignment and no built-in prompt, is constructed without an
  error, with the model \<open>claude-3-5-sonnet-20241022\<close> and the generic prompt, which is
  written to its prompt file.
\<close>

theorem unknown_agent_resolves_counterexample:
  "(''deploy'', ''ops'') \<in> set edited_rules \<and>
   \<not> dict_contains default_assignments ''ops'' \<and> \<not> dict_contains prompts ''ops'' \<and>
   agent_init demo_env
     [rules_file \<mapsto> json_dump_indent2 edited_rules,
      assignments_file \<mapsto> json_dump_indent2 default_assignments]
     (Some ''sk-test'') ''ops'' =
   Inr (\<lparr>agent_name = ''ops'', model = ''claude-3-5-sonnet-20241022'',
         prompt_template = generic_prompt demo_env ''ops'', last_input_hash = None\<rparr>,
        [rules_file \<mapsto> json_dump_indent2 edited_rules,
         assignments_file \<mapsto> json_dump_indent2 default_assignments,
         prompt_file ''ops'' \<mapsto> generic_prompt demo_env ''ops'']) \<and>
   generic_prompt demo_env ''ops'' =
     ''\<newline>'' @
     ''You are Claude-Ops, a specialized AI assistant.\<newline>'' @
     ''\<newline>'' @
     ''Please provide helpful and accurate responses based on your role.\<newline>''"
proof -
  have 1: "(''deploy'', ''ops'') \<in> set edited_rules"
    by (simp add: edited_rules_def)
  have 2: "\<not> dict_contains default_assignments ''ops''"
    by (simp add: dict_contains_def default_assignments_def)
  have 3: "\<not> dict_contains prompts ''ops''"
    by (simp add: dict_contains_def prompts_def)
  have 4: "dict_get default_assignments ''ops'' ''claude-3-5-sonnet-20241022'' =
           ''claude-3-5-sonnet-20241022''"
    using 2 by (simp add: dict_get_def dict_contains_def)
  have 5: "get_default_prompt demo_env ''ops'' = generic_prompt demo_env ''ops''"
    using 3 by (simp add: get_default_prompt_def dict_get_def dict_contains_def)
  have 6: "rules_file \<noteq> assignments_file" "prompt_file ''ops'' \<noteq> assignments_file"
    "prompt_file ''ops'' \<noteq> rules_file"
    by (simp_all add: rules_file_def assignments_file_def prompt_file_def)
  have 7: "agent_init demo_env
     [rules_file \<mapsto> json_dump_indent2 edited_rules,
      assignments_file \<mapsto> json_dump_indent2 default_assignments]
     (Some ''sk-test'') ''ops'' =
   Inr (\<lparr>agent_name = ''ops'', model = ''claude-3-5-sonnet-20241022'',
         prompt_template = generic_prompt demo_env ''ops'', last_input_hash = None\<rparr>,
        [rules_file \<mapsto> json_dump_indent2 edited_rules,
         assignments_file \<mapsto> json_dump_indent2 default_assignments,
         prompt_file ''ops'' \<mapsto> generic_prompt demo_env ''ops''])"
    using 6 by (simp add: agent_init_def load_model_assignment_def load_prompt_template_def
        demo_load_assignments 4 5 write_text_eq Let_def)
  have 8: "generic_prompt demo_env ''ops'' =
     ''\<newline>'' @
     ''You are Claude-Ops, a specialized AI assistant.\<newline>'' @
     ''\<newline>'' @
     ''Please provide helpful and accurate responses based on your role.\<newline>''"
    by (simp add: generic_prompt_def title_ops)
  show ?thesis
    using 1 2 3 7 8 by blast
qed

text \<open>
  C1, amended. With the credential set, an agent that has no entry in the model assignments
  in force (the persisted ones, or the default ones when the file is absent) gets the model
  \<open>claude-3-5-sonnet-20241022\<close>, and its construction raises no error for the missing
  entry: the prompt template is the default prompt when none is persisted, which for an
  agent without a built-in prompt is the generic prompt naming the agent, and else the
  persisted template, trimmed; only a persisted template that cannot be decoded makes the
  constructor raise, with \<open>UnicodeDecodeError\<close>.
\<close>

theorem unknown_agent_gets_generic_profile:
  assumes "api_key \<noteq> None" and "api_key \<noteq> Some []"
    and "(files assignments_file = None \<and> assignments = default_assignments) \<or>
         (\<exists>content. files assignments_file = Some content \<and>
                    json_load e content = Some assignments)"
    and "\<not> dict_contains assignments name"
  shows "(\<exists>files'.
            agent_init e files api_key name =
              (case files (prompt_file name) of
                 None \<Rightarrow>
                   Inr (\<lparr>agent_name = name, model = ''claude-3-5-sonnet-20241022'',
                         prompt_template = get_default_prompt e name,
                         last_input_hash = None\<rparr>, files')
               | Some bytes \<Rightarrow>
                   (case read_text bytes of
                      None \<Rightarrow> Inl UnicodeDecodeError
                    | Some decoded \<Rightarrow>
                        Inr (\<lparr>agent_name = name, model = ''claude-3-5-sonnet-20241022'',
                              prompt_template = strip decoded,
                              last_input_hash = None\<rparr>, files')))) \<and>
         (\<not> dict_contains prompts name \<longrightarrow>
            get_default_prompt e name =
              ''\<newline>'' @
              ''You are Claude-'' @ str_title e name @ '', a specialized AI assistant.\<newline>'' @
              ''\<newline>'' @
              ''Please provide helpful and accurate responses based on your role.\<newline>'')"
proof -
  have m: "dict_get assignments name ''claude-3-5-sonnet-20241022'' =
           ''claude-3-5-sonnet-20241022''"
    using assms(4) by (simp add: dict_get_def dict_contains_def)
  obtain files1 where l: "load_model_assignment e files name =
      Inr (''claude-3-5-sonnet-20241022'', files1)"
    using assms(3) m by (auto simp: load_model_assignment_def)
  have k: "files1 (prompt_file name) = files (prompt_file name)"
    using load_model_assignment_other [OF l] assignments_not_prompt [of name] by metis
  have "\<exists>files'.
            agent_init e files api_key name =
              (case files (prompt_file name) of
                 None \<Rightarrow>
                   Inr (\<lparr>agent_name = name, model = ''claude-3-5-sonnet-20241022'',
                         prompt_template = get_default_prompt e name,
                         last_input_hash = None\<rparr>, files')
               | Some bytes \<Rightarrow>
                   (case read_text bytes of
                      None \<Rightarrow> Inl UnicodeDecodeError
                    | Some decoded \<Rightarrow>
                        Inr (\<lparr>agent_name = name, model = ''claude-3-5-sonnet-20241022'',
                              prompt_template = strip decoded,
                              last_input_hash = None\<rparr>, files')))"
    using assms(1,2) l k
    by (auto simp: agent_init_def load_prompt_template_def Let_def split: option.splits)
  moreover have "\<not> dict_contains prompts name \<longrightarrow>
            get_default_prompt e name =
              ''\<newline>'' @
              ''You are Claude-'' @ str_title e name @ '', a specialized AI assistant.\<newline>'' @
              ''\<newline>'' @
              ''Please provide helpful and accurate responses based on your role.\<newline>''"
    by (simp add: get_default_prompt_def generic_prompt_def dict_get_def dict_contains_def)
  ultimately show ?thesis
    by blast
qed

theorem unknown_agent_gets_generic_profile_witness:
  "\<exists>files'.
     agent_init demo_env Map.empty (Some ''sk-test'') ''ghost'' =
       Inr (\<lparr>agent_name = ''ghost'', model = ''claude-3-5-sonnet-20241022'',
             prompt_template = generic_prompt demo_env ''ghost'', last_input_hash = None\<rparr>,
            files')"
proof -
  have 1: "Some ''sk-test'' \<noteq> (None :: string option)" and 2: "Some ''sk-test'' \<noteq> Some []"
    by simp_all
  have 3: "((Map.empty :: fs) assignments_file = None \<and> default_assignments = default_assignments) \<or>
         (\<exists>content. (Map.empty :: fs) assignments_file = Some content \<and>
                    json_load demo_env content = Some default_assignments)"
    by simp
  have 4: "\<not> dict_contains default_assignments ''ghost''"
    by (simp add: dict_contains_def default_assignments_def)
  have 5: "\<not> dict_contains prompts ''ghost''"
    by (simp add: dict_contains_def prompts_def)
  have 6: "get_default_prompt demo_env ''ghost'' = generic_prompt demo_env ''ghost''"
    using 5 by (simp add: get_default_prompt_def dict_get_def dict_contains_def)
  show ?thesis
    using unknown_agent_gets_generic_profile [where api_key="Some ''sk-test''" and files=Map.empty
        and assignments=default_assignments and e=demo_env and name="''ghost''", OF 1 2 3 4] 6
    by auto
qed

section \<open>The activity log after a failed generation\<close>

text \<open>
  C2 does not hold of the code when the call of the service raises. The agent \<open>coder\<close>
  finds the input \<open>fix the login bug\<close> and the call raises \<open>timeout\<close>: the cycle
  completes and writes the error response to the outbox, and the activity log has no
  entry (the log file does not even exist afterwards). When the call succeeds the record
  is appended, see \<open>process_input_ok\<close>.
\<close>

theorem failed_generation_not_logged:
  "check_for_input demo_env demo_agent (demo_io (ApiError ''timeout''))
     [inbox_file ''coder'' \<mapsto> ''fix the login bug''] =
   Inr (True, demo_agent\<lparr>last_input_hash := Some (md5_hexdigest ''fix the login bug'')\<rparr>,
        [inbox_file ''coder'' \<mapsto> ''fix the login bug'',
         outbox_file ''coder'' \<mapsto>
           ''# Claude-Coder Output - 2025-01-01 10:00:04\<newline>'' @
           ''\<newline>'' @
           ''Error processing request: timeout\<newline>'' @
           ''\<newline>'' @
           ''---\<newline>'' @
           ''*Generated by ClaudeStack Agent Runner*\<newline>'']) \<and>
   [inbox_file ''coder'' \<mapsto> ''fix the login bug'',
    outbox_file ''coder'' \<mapsto>
      ''# Claude-Coder Output - 2025-01-01 10:00:04\<newline>'' @
      ''\<newline>'' @
      ''Error processing request: timeout\<newline>'' @
      ''\<newline>'' @
      ''---\<newline>'' @
      ''*Generated by ClaudeStack Agent Runner*\<newline>''] log_file = None"
proof -
  let ?files = "[inbox_file ''coder'' \<mapsto> ''fix the login bug'']"
  let ?w = "demo_io (ApiError ''timeout'')"
  have n: "agent_name demo_agent = ''coder''"
    by (simp add: demo_agent_def)
  have 1: "?files (inbox_file (agent_name demo_agent)) = Some ''fix the login bug''"
    by (simp add: n)
  have 2: "strip ''fix the login bug'' \<noteq> []"
    by (simp add: strip_fix)
  have 3: "last_input_hash demo_agent \<noteq> Some (md5_hexdigest ''fix the login bug'')"
    by (simp add: demo_agent_def)
  have t: "now_output ?w = ''2025-01-01 10:00:04''"
    by (simp add: demo_io_def)
  have p: "process_input demo_env demo_agent ?w ?files ''fix the login bug'' =
           (''Error processing request: timeout'', ?files)"
    using process_input_error [where w="?w" and a=demo_agent and t="''fix the login bug''"
        and err="''timeout''" and files="?files" and e=demo_env]
    by (simp add: demo_io_def)
  have o: "output_content demo_env demo_agent ''2025-01-01 10:00:04''
             ''Error processing request: timeout'' =
           ''# Claude-Coder Output - 2025-01-01 10:00:04\<newline>'' @
           ''\<newline>'' @
           ''Error processing request: timeout\<newline>'' @
           ''\<newline>'' @
           ''---\<newline>'' @
           ''*Generated by ClaudeStack Agent Runner*\<newline>''"
    by (simp add: output_content_def n title_coder)
  have step: "check_for_input demo_env demo_agent ?w ?files =
   Inr (True, demo_agent\<lparr>last_input_hash := Some (md5_hexdigest ''fix the login bug'')\<rparr>,
        ?files(outbox_file ''coder'' \<mapsto>
           output_content demo_env demo_agent ''2025-01-01 10:00:04''
             ''Error processing request: timeout''))"
    using changed_inbox_poll [where a=demo_agent and e=demo_env and w="?w" and files="?files"
        and bytes="''fix the login bug''" and decoded="''fix the login bug''", OF 1 read_fix 2 3]
    by (simp add: strip_fix p n t)
  have nolog: "(?files(outbox_file ''coder'' \<mapsto>
           output_content demo_env demo_agent ''2025-01-01 10:00:04''
             ''Error processing request: timeout'')) log_file = None"
    using inbox_not_log [of "''coder''"] outbox_not_log [of "''coder''"]
    by (simp add: fun_upd_def)
  show ?thesis
    using step nolog unfolding o by simp
qed


section \<open>The router's write, as an agent's cycle sees it\<close>





section \<open>A change is signalled once\<close>

text \<open>
  C4, as the claim states it, fails: a change of the content is detected through the MD5
  digest only. The router routes the text \<open>textcoll_a\<close>; the inbox is then overwritten with
  the different text \<open>textcoll_b\<close>, which has the same digest, and the next cycle reports
  no change and routes nothing.
\<close>

theorem collision_not_signalled_counterexample:
  "textcoll_a \<noteq> textcoll_b \<and> strip textcoll_a \<noteq> [] \<and> strip textcoll_b \<noteq> [] \<and>
   (case process_chat_input demo_env demo_router (demo_io (ApiOk ''general''))
           [chat_file \<mapsto> textcoll_a] of
      Inl err \<Rightarrow> False
    | Inr (changed, r', files') \<Rightarrow>
        changed \<and>
        process_chat_input demo_env r' (demo_io (ApiOk ''general''))
          (files'(chat_file \<mapsto> textcoll_b)) =
        Inr (False, r', files'(chat_file \<mapsto> textcoll_b)))"
proof -
  let ?w = "demo_io (ApiOk ''general'')"
  let ?files = "[chat_file \<mapsto> textcoll_a]"
  let ?c = "classify_intent demo_env demo_router ?w ?files textcoll_a"
  let ?files' = "snd (route_message demo_router ?w (snd ?c) textcoll_a (fst ?c))"
  let ?r' = "demo_router\<lparr>last_chat_hash := Some (md5_hexdigest textcoll_a)\<rparr>"
  have 1: "?files chat_file = Some textcoll_a"
    by simp
  have 2: "strip textcoll_a \<noteq> []" "strip textcoll_b \<noteq> []"
    using textcoll_text by simp_all
  have 3: "last_chat_hash demo_router \<noteq> Some (md5_hexdigest textcoll_a)"
    by (simp add: demo_router_def)
  have first_cycle: "process_chat_input demo_env demo_router ?w ?files = Inr (True, ?r', ?files')"
    using changed_chat_poll [where files="?files" and bytes=textcoll_a and decoded=textcoll_a
        and r=demo_router and e=demo_env and w="?w", OF 1 textcoll_text(2) 2(1) 3]
    by (simp add: textcoll_text)
  have same: "last_chat_hash ?r' = Some (md5_hexdigest textcoll_b)"
    by (simp add: md5_textcoll)
  have second_cycle: "process_chat_input demo_env ?r' ?w (?files'(chat_file \<mapsto> textcoll_b)) =
        Inr (False, ?r', ?files'(chat_file \<mapsto> textcoll_b))"
    by (rule unchanged_chat_poll [OF _ same]) simp
  show ?thesis
    using textcoll_text(1) 2 first_cycle second_cycle by simp
qed

text \<open>
  C4, amended. When the watched file holds valid text that is not empty after trimming and
  the MD5 digest of its bytes differs from the remembered one, the cycle of the router (and
  likewise of an agent) reports a change and returns with the digest of that content
  remembered; the watched file still holds the content, and every later cycle that finds
  the same content there reports no change and leaves the state as it is, whatever the
  service and the clock answer.
\<close>

theorem change_signalled_once:
  "(files chat_file = Some bytes \<and> read_text bytes = Some decoded \<and> strip decoded \<noteq> [] \<and>
    last_chat_hash r \<noteq> Some (md5_hexdigest bytes) \<longrightarrow>
    (\<exists>r' files'.
       process_chat_input e r w files = Inr (True, r', files') \<and>
       last_chat_hash r' = Some (md5_hexdigest bytes) \<and>
       files' chat_file = Some bytes \<and>
       (\<forall>w' files''. files'' chat_file = Some bytes \<longrightarrow>
          process_chat_input e r' w' files'' = Inr (False, r', files'')))) \<and>
   (afiles (inbox_file (agent_name a)) = Some abytes \<and> read_text abytes = Some adecoded \<and>
    strip adecoded \<noteq> [] \<and> last_input_hash a \<noteq> Some (md5_hexdigest abytes) \<longrightarrow>
    (\<exists>a' afiles'.
       check_for_input e a w afiles = Inr (True, a', afiles') \<and>
       last_input_hash a' = Some (md5_hexdigest abytes) \<and>
       afiles' (inbox_file (agent_name a')) = Some abytes \<and>
       (\<forall>w' afiles''. afiles'' (inbox_file (agent_name a')) = Some abytes \<longrightarrow>
          check_for_input e a' w' afiles'' = Inr (False, a', afiles''))))"
proof (intro conjI impI)
  assume h: "files chat_file = Some bytes \<and> read_text bytes = Some decoded \<and>
    strip decoded \<noteq> [] \<and> last_chat_hash r \<noteq> Some (md5_hexdigest bytes)"
  let ?m = "strip decoded"
  let ?r = "r\<lparr>last_chat_hash := Some (md5_hexdigest bytes)\<rparr>"
  let ?c = "classify_intent e r w files ?m"
  let ?f = "snd (route_message r w (snd ?c) ?m (fst ?c))"
  have step: "process_chat_input e r w files = Inr (True, ?r, ?f)"
    using h changed_chat_poll by blast
  have keep: "?f chat_file = Some bytes"
    using h by (simp add: route_message_other classify_intent_other chat_not_log chat_not_inbox)
  have again: "\<forall>w' files''. files'' chat_file = Some bytes \<longrightarrow>
          process_chat_input e ?r w' files'' = Inr (False, ?r, files'')"
    by (simp add: unchanged_chat_poll)
  show "\<exists>r' files'.
       process_chat_input e r w files = Inr (True, r', files') \<and>
       last_chat_hash r' = Some (md5_hexdigest bytes) \<and>
       files' chat_file = Some bytes \<and>
       (\<forall>w' files''. files'' chat_file = Some bytes \<longrightarrow>
          process_chat_input e r' w' files'' = Inr (False, r', files''))"
    using step keep again by (intro exI [of _ ?r] exI [of _ ?f]) simp
next
  assume h: "afiles (inbox_file (agent_name a)) = Some abytes \<and>
    read_text abytes = Some adecoded \<and> strip adecoded \<noteq> [] \<and>
    last_input_hash a \<noteq> Some (md5_hexdigest abytes)"
  let ?m = "strip adecoded"
  let ?a = "a\<lparr>last_input_hash := Some (md5_hexdigest abytes)\<rparr>"
  let ?p = "process_input e a w afiles ?m"
  let ?f = "(snd ?p)(outbox_file (agent_name a) \<mapsto>
              output_content e a (now_output w) (fst ?p))"
  have step: "check_for_input e a w afiles = Inr (True, ?a, ?f)"
    using h changed_inbox_poll by blast
  have keep: "?f (inbox_file (agent_name ?a)) = Some abytes"
    using h by (simp add: process_input_other inbox_not_log inbox_not_outbox)
  have again: "\<forall>w' afiles''. afiles'' (inbox_file (agent_name ?a)) = Some abytes \<longrightarrow>
          check_for_input e ?a w' afiles'' = Inr (False, ?a, afiles'')"
    by (simp add: unchanged_inbox_poll)
  show "\<exists>a' afiles'.
       check_for_input e a w afiles = Inr (True, a', afiles') \<and>
       last_input_hash a' = Some (md5_hexdigest abytes) \<and>
       afiles' (inbox_file (agent_name a')) = Some abytes \<and>
       (\<forall>w' afiles''. afiles'' (inbox_file (agent_name a')) = Some abytes \<longrightarrow>
          check_for_input e a' w' afiles'' = Inr (False, a', afiles''))"
    using step keep again by (intro exI [of _ ?a] exI [of _ ?f]) simp
qed

theorem change_signalled_once_witness:
  "(\<exists>r' files'.
      process_chat_input demo_env demo_router (demo_io (ApiOk ''bug_fix''))
        [chat_file \<mapsto> ''fix the login bug''] = Inr (True, r', files') \<and>
      last_chat_hash r' = Some ''5a6d62974e208a9d47081bbe9e599fd2'' \<and>
      process_chat_input demo_env r' (demo_io (ApiOk ''testing'')) files' =
        Inr (False, r', files')) \<and>
   (\<exists>a' files'.
      check_for_input demo_env demo_agent (demo_io (ApiOk ''done''))
        [inbox_file ''coder'' \<mapsto> ''fix the login bug''] = Inr (True, a', files') \<and>
      last_input_hash a' = Some ''5a6d62974e208a9d47081bbe9e599fd2'' \<and>
      check_for_input demo_env a' (demo_io (ApiOk ''again'')) files' = Inr (False, a', files'))"
proof -
  have s: "strip ''fix the login bug'' \<noteq> []"
    by (simp add: strip_fix)
  have n: "agent_name demo_agent = ''coder''"
    by (simp add: demo_agent_def)
  have 1: "[chat_file \<mapsto> ''fix the login bug''] chat_file = Some ''fix the login bug'' \<and>
           read_text ''fix the login bug'' = Some ''fix the login bug'' \<and>
           strip ''fix the login bug'' \<noteq> [] \<and>
           last_chat_hash demo_router \<noteq> Some (md5_hexdigest ''fix the login bug'')"
    using s read_fix by (simp add: demo_router_def)
  have 2: "[inbox_file ''coder'' \<mapsto> ''fix the login bug''] (inbox_file (agent_name demo_agent)) =
             Some ''fix the login bug'' \<and>
           read_text ''fix the login bug'' = Some ''fix the login bug'' \<and>
           strip ''fix the login bug'' \<noteq> [] \<and>
           last_input_hash demo_agent \<noteq> Some (md5_hexdigest ''fix the login bug'')"
    using s n read_fix by (simp add: demo_agent_def)
  note router_inst = change_signalled_once [where e=demo_env and w="demo_io (ApiOk ''bug_fix'')"
      and files="[chat_file \<mapsto> ''fix the login bug'']" and bytes="''fix the login bug''"
      and decoded="''fix the login bug''" and adecoded="''fix the login bug''"
      and r=demo_router and a=demo_agent
      and afiles="[inbox_file ''coder'' \<mapsto> ''fix the login bug'']"
      and abytes="''fix the login bug''"]
  have router: "\<exists>r' files'.
      process_chat_input demo_env demo_router (demo_io (ApiOk ''bug_fix''))
        [chat_file \<mapsto> ''fix the login bug''] = Inr (True, r', files') \<and>
      last_chat_hash r' = Some ''5a6d62974e208a9d47081bbe9e599fd2'' \<and>
      process_chat_input demo_env r' (demo_io (ApiOk ''testing'')) files' =
        Inr (False, r', files')"
    using router_inst 1 unfolding md5_fix by fastforce
  note worker_inst = change_signalled_once [where e=demo_env and w="demo_io (ApiOk ''done'')"
      and files="[chat_file \<mapsto> ''fix the login bug'']" and bytes="''fix the login bug''"
      and decoded="''fix the login bug''" and adecoded="''fix the login bug''"
      and r=demo_router and a=demo_agent
      and afiles="[inbox_file ''coder'' \<mapsto> ''fix the login bug'']"
      and abytes="''fix the login bug''"]
  have worker: "\<exists>a' files'.
      check_for_input demo_env demo_agent (demo_io (ApiOk ''done''))
        [inbox_file ''coder'' \<mapsto> ''fix the login bug''] = Inr (True, a', files') \<and>
      last_input_hash a' = Some ''5a6d62974e208a9d47081bbe9e599fd2'' \<and>
      check_for_input demo_env a' (demo_io (ApiOk ''again'')) files' = Inr (False, a', files')"
    using worker_inst 2 unfolding md5_fix by fastforce
  show ?thesis
    using router worker by blast
qed


section \<open>The classifier's fallback\<close>

text \<open>
  C5, as the claim states it, fails: a mixed-case and whitespace-padded answer of the
  service that is not itself a key of the rules is trimmed and lower-cased first, and is
  returned when the result is a key.
\<close>

theorem classify_normalises_counterexample:
  "\<not> dict_contains default_rules '' Bug_Fix '' \<and>
   fst (classify_intent demo_env demo_router (demo_io (ApiOk '' Bug_Fix '')) Map.empty
          ''it crashes'') = ''bug_fix'' \<and>
   fst (classify_intent demo_env demo_router (demo_io (ApiOk '' Bug_Fix '')) Map.empty
          ''it crashes'') \<noteq> ''general''"
proof -
  have n: "str_lower demo_env (strip '' Bug_Fix '') = ''bug_fix''"
    by code_simp
  have a: "messages_create (demo_io (ApiOk '' Bug_Fix '')) (classification_request ''it crashes'') =
           ApiOk '' Bug_Fix ''"
    by (simp add: demo_io_def)
  show ?thesis
    by (simp add: classify_intent_result a n demo_router_def default_rules_def dict_contains_def)
qed

text \<open>
  C5, amended. When the answer of the service, trimmed and lower-cased, is not a key of the
  loaded routing rules (the empty answer among them), or when the call raises, the
  classifier returns the label \<open>general\<close>; an answer that is a key after trimming and
  lower-casing is accepted as that key. Routing the label \<open>general\<close> yields the agent the
  rules give for it, or \<open>helper\<close> when they give none; with the default rules this is
  \<open>helper\<close>, which has a model assignment and a built-in prompt.
\<close>

theorem classify_fallback:
  "(messages_create w (classification_request message) = ApiOk answer \<and>
    \<not> dict_contains (routing_rules r) (str_lower e (strip answer)) \<longrightarrow>
    fst (classify_intent e r w files message) = ''general'') \<and>
   (messages_create w (classification_request message) = ApiError err \<longrightarrow>
    fst (classify_intent e r w files message) = ''general'') \<and>
   (messages_create w (classification_request message) = ApiOk answer \<and>
    dict_contains (routing_rules r) (str_lower e (strip answer)) \<longrightarrow>
    fst (classify_intent e r w files message) = str_lower e (strip answer)) \<and>
   fst (route_message r w files' message ''general'') =
     dict_get (routing_rules r) ''general'' ''helper'' \<and>
   dict_get default_rules ''general'' ''helper'' = ''helper'' \<and>
   dict_contains default_assignments ''helper'' \<and> dict_contains prompts ''helper''"
proof -
  have "dict_get default_rules ''general'' ''helper'' = ''helper''"
    by (simp add: dict_get_def default_rules_def)
  moreover have "dict_contains default_assignments ''helper''"
    by (simp add: dict_contains_def default_assignments_def)
  moreover have "dict_contains prompts ''helper''"
    by (simp add: dict_contains_def prompts_def)
  ultimately show ?thesis
    by (simp add: route_message_target classify_intent_result)
qed

theorem classify_fallback_witness:
  "fst (classify_intent demo_env demo_router (demo_io (ApiOk [])) Map.empty ''hello'') =
     ''general'' \<and>
   fst (classify_intent demo_env demo_router (demo_io (ApiError ''timeout'')) Map.empty
          ''hello'') = ''general'' \<and>
   fst (classify_intent demo_env demo_router (demo_io (ApiOk ''Testing\<newline>'')) Map.empty
          ''hello'') = ''testing'' \<and>
   fst (route_message demo_router (demo_io (ApiOk [])) Map.empty ''hello'' ''general'') =
     ''helper''"
proof -
  have n: "str_lower demo_env (strip []) = []"
    "str_lower demo_env (strip ''Testing\<newline>'') = ''testing''"
    by code_simp+
  have k: "\<not> dict_contains (routing_rules demo_router) []"
    "dict_contains (routing_rules demo_router) ''testing''"
    "dict_get (routing_rules demo_router) ''general'' ''helper'' = ''helper''"
    by (simp_all add: demo_router_def default_rules_def dict_contains_def dict_get_def)
  have a: "messages_create (demo_io (ApiOk [])) (classification_request ''hello'') = ApiOk []"
    "messages_create (demo_io (ApiError ''timeout'')) (classification_request ''hello'') =
       ApiError ''timeout''"
    "messages_create (demo_io (ApiOk ''Testing\<newline>'')) (classification_request ''hello'') =
       ApiOk ''Testing\<newline>''"
    by (simp_all add: demo_io_def)
  show ?thesis
    using classify_fallback [where w="demo_io (ApiOk [])" and message="''hello''"
        and answer="[]" and r=demo_router and e=demo_env and files=Map.empty
        and files'=Map.empty and err="''timeout''"]
      classify_fallback [where w="demo_io (ApiError ''timeout'')" and message="''hello''"
        and answer="[]" and r=demo_router and e=demo_env and files=Map.empty
        and files'=Map.empty and err="''timeout''"]
      classify_fallback [where w="demo_io (ApiOk ''Testing\<newline>'')" and message="''hello''"
        and answer="''Testing\<newline>''" and r=demo_router and e=demo_env and files=Map.empty
        and files'=Map.empty and err="''timeout''"]
      n k a
    by simp
qed


section \<open>A failed generation is answered with an error description\<close>

text \<open>
  C6. In a cycle of an agent that finds a new input (valid text, not empty after trimming)
  and in which the call of the service raises, the cycle completes normally: the outbox,
  whatever it held, is overwritten with the response given below, which is not empty and
  whose content is \<open>Error processing request:\<close> followed by the message of the exception;
  the digest of the input is remembered, and the polling loop goes on with the remaining
  cycles from that state.
\<close>

theorem failed_generation_writes_error_response:
  assumes "files (inbox_file (agent_name a)) = Some bytes"
    and "last_input_hash a \<noteq> Some (md5_hexdigest bytes)"
    and "read_text bytes = Some decoded"
    and "strip decoded \<noteq> []"
    and "messages_create w
           \<lparr>req_model = model a, req_max_tokens = 4000,
            req_prompt = prompt_template a @ ''\<newline>'' @ ''\<newline>'' @ ''---\<newline>'' @ ''\<newline>'' @
                         ''User Input:\<newline>'' @ strip decoded\<rparr> = ApiError err"
  shows "(let response =
            ''# Claude-'' @ str_title e (agent_name a) @ '' Output - '' @ now_output w @
              ''\<newline>'' @
            ''\<newline>'' @
            ''Error processing request: '' @ err @ ''\<newline>'' @
            ''\<newline>'' @
            ''---\<newline>'' @
            ''*Generated by ClaudeStack Agent Runner*\<newline>'';
              a' = a\<lparr>last_input_hash := Some (md5_hexdigest bytes)\<rparr>;
              files' = files(outbox_file (agent_name a) \<mapsto> response)
          in check_for_input e a w files = Inr (True, a', files') \<and>
             files' (outbox_file (agent_name a)) = Some response \<and>
             response \<noteq> [] \<and>
             (\<forall>outside files0 cycles. outside files0 = files \<longrightarrow>
                agent_run e a files0 ((outside, w) # cycles) = agent_run e a' files' cycles))"
proof -
  have q: "messages_create w (generation_request a (strip decoded)) = ApiError err"
    using assms(5) by (simp add: generation_request_def full_prompt_def)
  have step: "check_for_input e a w files =
           Inr (True, a\<lparr>last_input_hash := Some (md5_hexdigest bytes)\<rparr>,
            files(outbox_file (agent_name a) \<mapsto>
              output_content e a (now_output w) (''Error processing request: '' @ err)))"
    using changed_inbox_poll [where a=a and e=e and w=w and files=files and bytes=bytes
        and decoded=decoded, OF assms(1) assms(3) assms(4) assms(2)]
      process_input_error [OF q, of e files]
    by simp
  then show ?thesis
    by (simp add: Let_def output_content_def)
qed

theorem failed_generation_writes_error_response_witness:
  "check_for_input demo_env demo_agent (demo_io (ApiError ''rate limit''))
     [inbox_file ''coder'' \<mapsto> ''fix the login bug'', outbox_file ''coder'' \<mapsto> ''old response''] =
   Inr (True, demo_agent\<lparr>last_input_hash := Some ''5a6d62974e208a9d47081bbe9e599fd2''\<rparr>,
        [inbox_file ''coder'' \<mapsto> ''fix the login bug'',
         outbox_file ''coder'' \<mapsto>
           ''# Claude-Coder Output - 2025-01-01 10:00:04\<newline>'' @
           ''\<newline>'' @
           ''Error processing request: rate limit\<newline>'' @
           ''\<newline>'' @
           ''---\<newline>'' @
           ''*Generated by ClaudeStack Agent Runner*\<newline>'']) \<and>
   agent_run demo_env demo_agent
     [inbox_file ''coder'' \<mapsto> ''fix the login bug'', outbox_file ''coder'' \<mapsto> ''old response'']
     [(id, demo_io (ApiError ''rate limit''))] =
   Inr (demo_agent\<lparr>last_input_hash := Some ''5a6d62974e208a9d47081bbe9e599fd2''\<rparr>,
        [inbox_file ''coder'' \<mapsto> ''fix the login bug'',
         outbox_file ''coder'' \<mapsto>
           ''# Claude-Coder Output - 2025-01-01 10:00:04\<newline>'' @
           ''\<newline>'' @
           ''Error processing request: rate limit\<newline>'' @
           ''\<newline>'' @
           ''---\<newline>'' @
           ''*Generated by ClaudeStack Agent Runner*\<newline>''])"
proof -
  let ?files = "[inbox_file ''coder'' \<mapsto> ''fix the login bug'',
                 outbox_file ''coder'' \<mapsto> ''old response'']"
  let ?w = "demo_io (ApiError ''rate limit'')"
  have n: "agent_name demo_agent = ''coder''"
    by (simp add: demo_agent_def)
  have 1: "?files (inbox_file (agent_name demo_agent)) = Some ''fix the login bug''"
    using inbox_not_outbox [of "''coder''" "''coder''"] by (simp add: n)
  have 2: "last_input_hash demo_agent \<noteq> Some (md5_hexdigest ''fix the login bug'')"
    by (simp add: demo_agent_def)
  have 3: "strip ''fix the login bug'' \<noteq> []"
    by (simp add: strip_fix)
  have 4: "messages_create ?w
           \<lparr>req_model = model demo_agent, req_max_tokens = 4000,
            req_prompt = prompt_template demo_agent @ ''\<newline>'' @ ''\<newline>'' @ ''---\<newline>'' @
                         ''\<newline>'' @ ''User Input:\<newline>'' @ strip ''fix the login bug''\<rparr> =
           ApiError ''rate limit''"
    by (simp add: demo_io_def)
  have t: "now_output ?w = ''2025-01-01 10:00:04''"
    by (simp add: demo_io_def)
  note inst = failed_generation_writes_error_response [where a=demo_agent and e=demo_env
      and w="?w" and files="?files" and bytes="''fix the login bug''"
      and decoded="''fix the login bug''" and err="''rate limit''", OF 1 2 read_fix 3 4]
  have a: "check_for_input demo_env demo_agent ?w ?files =
   Inr (True, demo_agent\<lparr>last_input_hash := Some ''5a6d62974e208a9d47081bbe9e599fd2''\<rparr>,
        [inbox_file ''coder'' \<mapsto> ''fix the login bug'',
         outbox_file ''coder'' \<mapsto>
           ''# Claude-Coder Output - 2025-01-01 10:00:04\<newline>'' @
           ''\<newline>'' @
           ''Error processing request: rate limit\<newline>'' @
           ''\<newline>'' @
           ''---\<newline>'' @
           ''*Generated by ClaudeStack Agent Runner*\<newline>''])"
    using inst unfolding md5_fix t n title_coder Let_def by simp
  have "agent_run demo_env demo_agent ?files ((id, ?w) # []) =
        agent_run demo_env
          (demo_agent\<lparr>last_input_hash := Some ''5a6d62974e208a9d47081bbe9e599fd2''\<rparr>)
          [inbox_file ''coder'' \<mapsto> ''fix the login bug'',
           outbox_file ''coder'' \<mapsto>
             ''# Claude-Coder Output - 2025-01-01 10:00:04\<newline>'' @
             ''\<newline>'' @
             ''Error processing request: rate limit\<newline>'' @
             ''\<newline>'' @
             ''---\<newline>'' @
             ''*Generated by ClaudeStack Agent Runner*\<newline>''] []"
    using inst unfolding md5_fix t n title_coder Let_def by simp
  then show ?thesis
    using a by simp
qed


section \<open>The router ignores an empty shared inbox\<close>

text \<open>
  C7. When the text of the shared inbox is empty after trimming (the file is empty, or holds
  whitespace only, Unicode whitespace included), the router's cycle reports no change, and
  it leaves the file system as it is: no envelope is written to any agent's inbox and the
  activity log gains no entry. The router's state is unchanged as well.
\<close>

theorem empty_inbox_no_routing:
  assumes "files chat_file = Some bytes" and "read_text bytes = Some decoded"
    and "strip decoded = []"
  shows "process_chat_input e r w files = Inr (False, r, files)"
  using assms
  by (simp add: process_chat_input_def process_chat_input_at_def Let_def)

theorem empty_inbox_no_routing_witness:
  "process_chat_input demo_env demo_router (demo_io (ApiOk ''general''))
     [chat_file \<mapsto> [CHR 0x20, CHR 0xC2, CHR 0xA0, CHR 0xE3, CHR 0x80, CHR 0x80, CHR 0x0D, CHR 0x0A]]
   = Inr (False, demo_router,
          [chat_file \<mapsto> [CHR 0x20, CHR 0xC2, CHR 0xA0, CHR 0xE3, CHR 0x80, CHR 0x80, CHR 0x0D, CHR 0x0A]]) \<and>
   process_chat_input demo_env demo_router (demo_io (ApiOk ''general'')) [chat_file \<mapsto> []]
   = Inr (False, demo_router, [chat_file \<mapsto> []])"
proof -
  let ?bytes = "[CHR 0x20, CHR 0xC2, CHR 0xA0, CHR 0xE3, CHR 0x80, CHR 0x80, CHR 0x0D, CHR 0x0A]"
  have 1: "read_text ?bytes = Some [CHR 0x20, CHR 0xC2, CHR 0xA0, CHR 0xE3, CHR 0x80, CHR 0x80, CHR 0x0A]"
    by code_simp
  have 2: "strip [CHR 0x20, CHR 0xC2, CHR 0xA0, CHR 0xE3, CHR 0x80, CHR 0x80, CHR 0x0A] = []"
    by code_simp
  have 3: "read_text [] = Some []" and 4: "strip [] = []"
    by code_simp+
  have a: "[chat_file \<mapsto> ?bytes] chat_file = Some ?bytes"
    by simp
  have b: "[chat_file \<mapsto> []] chat_file = Some ([] :: string)"
    by simp
  show ?thesis
    using empty_inbox_no_routing [where files="[chat_file \<mapsto> ?bytes]" and bytes="?bytes"
        and e=demo_env and r=demo_router and w="demo_io (ApiOk ''general'')", OF a 1 2]
      empty_inbox_no_routing [where files="[chat_file \<mapsto> []]" and bytes="[]"
        and e=demo_env and r=demo_router and w="demo_io (ApiOk ''general'')", OF b 3 4]
    by simp
qed


section \<open>The default configuration\<close>



section \<open>A whitespace variant of the last message is routed again\<close>

text \<open>
  C9, as the claim states it, fails: the digest has 32 hexadecimal characters, so among
  the contents \<open>a\<close>, \<open>a\<close> followed by one space, by two spaces, and so on, which all differ
  as bytes and are all \<open>a\<close> after trimming, two have the same MD5 digest; when the router
  remembers the digest of one of them and the inbox then holds the other, the cycle reports
  no change.
\<close>

theorem whitespace_variants_collide_counterexample:
  "\<not> (\<forall>first second t1 t2.
         first \<noteq> second \<and> read_text first = Some t1 \<and> read_text second = Some t2 \<and>
         strip t2 = strip t1 \<and> strip t1 \<noteq> [] \<longrightarrow>
         (\<exists>r' files'.
            process_chat_input demo_env
              (demo_router\<lparr>last_chat_hash := Some (md5_hexdigest first)\<rparr>)
              (demo_io (ApiOk ''general'')) [chat_file \<mapsto> second] =
            Inr (True, r', files')))"
proof
  assume claim: "\<forall>first second t1 t2.
         first \<noteq> second \<and> read_text first = Some t1 \<and> read_text second = Some t2 \<and>
         strip t2 = strip t1 \<and> strip t1 \<noteq> [] \<longrightarrow>
         (\<exists>r' files'.
            process_chat_input demo_env
              (demo_router\<lparr>last_chat_hash := Some (md5_hexdigest first)\<rparr>)
              (demo_io (ApiOk ''general'')) [chat_file \<mapsto> second] =
            Inr (True, r', files'))"
  obtain j k where jk: "j \<noteq> k"
    and same: "md5_hexdigest (CHR ''a'' # replicate j (CHR '' '')) =
               md5_hexdigest (CHR ''a'' # replicate k (CHR '' ''))"
    using md5_not_injective_on_padding by blast
  let ?first = "CHR ''a'' # replicate j (CHR '' '')"
  let ?second = "CHR ''a'' # replicate k (CHR '' '')"
  let ?r = "demo_router\<lparr>last_chat_hash := Some (md5_hexdigest ?first)\<rparr>"
  have "length ?first \<noteq> length ?second"
    using jk by simp
  then have differ: "?first \<noteq> ?second"
    by metis
  have "?first \<noteq> ?second \<and> read_text ?first = Some ?first \<and>
        read_text ?second = Some ?second \<and> strip ?second = strip ?first \<and> strip ?first \<noteq> []"
    using differ by (simp add: read_text_padded strip_padded del: replicate.simps)
  with claim obtain r' files' where
    "process_chat_input demo_env ?r (demo_io (ApiOk ''general'')) [chat_file \<mapsto> ?second] =
     Inr (True, r', files')"
    by blast
  moreover have "process_chat_input demo_env ?r (demo_io (ApiOk ''general''))
                   [chat_file \<mapsto> ?second] = Inr (False, ?r, [chat_file \<mapsto> ?second])"
    by (rule unchanged_chat_poll) (simp_all add: same)
  ultimately show False
    by simp
qed

text \<open>
  C9, amended. The router's digest is taken over the bytes of the shared inbox as they are,
  and the message it classifies and routes is the trimmed text. So when the digest of a
  content is remembered and the inbox then holds a content with another MD5 digest and the
  same non-empty trimmed text, the cycle reports a change and remembers the new digest; the
  service is asked to classify that same trimmed message, and the inbox of the target
  agent receives the envelope below, which carries it again.
\<close>

theorem whitespace_variant_rerouted:
  assumes "last_chat_hash r = Some (md5_hexdigest first)"
    and "files chat_file = Some second"
    and "md5_hexdigest second \<noteq> md5_hexdigest first"
    and "read_text first = Some t1" and "read_text second = Some t2"
    and "strip t2 = strip t1"
    and "strip t1 \<noteq> []"
  shows \<open>get_file_hash files chat_file = Some (md5_hexdigest second) \<and>
         (let message = strip t1;
              intent =
                (case messages_create w
                        \<lparr>req_model = ''claude-3-5-sonnet-20241022'', req_max_tokens = 50,
                         req_prompt =
                           ''\<newline>'' @
                           ''You are a message classifier for ClaudeStack, a multi-agent AI development framework.\<newline>'' @
                           ''\<newline>'' @
                           ''Analyze the following user message and classify it into ONE of these categories:\<newline>'' @
                           ''- feature_request: User wants to build/add a new feature\<newline>'' @
                           ''- code_question: User has questions about existing code or general programming\<newline>'' @
                           ''- ui_request: User wants UI/UX design or frontend work\<newline>'' @
                           ''- bug_fix: User reports a bug or wants something fixed\<newline>'' @
                           ''- code_review: User wants code reviewed\<newline>'' @
                           ''- testing: User wants tests written or testing help\<newline>'' @
                           ''- general: Anything else\<newline>'' @
                           ''\<newline>'' @
                           ''User message: "'' @ message @ ''"\<newline>'' @
                           ''\<newline>'' @
                           ''Respond with ONLY the category name (e.g., "feature_request").\<newline>''\<rparr> of
                   ApiOk answer \<Rightarrow>
                     if dict_contains (routing_rules r) (str_lower e (strip answer))
                     then str_lower e (strip answer) else ''general''
                 | ApiError err \<Rightarrow> ''general'')
          in \<exists>files'.
               process_chat_input e r w files =
                 Inr (True, r\<lparr>last_chat_hash := Some (md5_hexdigest second)\<rparr>, files') \<and>
               files' (inbox_file (dict_get (routing_rules r) intent ''helper'')) =
                 Some (''# New Request - '' @ now_route w @ ''\<newline>'' @
                       ''\<newline>'' @
                       ''**Intent:** '' @ intent @ ''\<newline>'' @
                       ''**Original Message:**\<newline>'' @
                       ''\<newline>'' @
                       message @ ''\<newline>'' @
                       ''\<newline>'' @
                       ''---\<newline>''))\<close>
proof -
  let ?m = "strip t1"
  let ?c = "classify_intent e r w files ?m"
  have new: "last_chat_hash r \<noteq> Some (md5_hexdigest second)"
    using assms(1,3) by simp
  have nonempty: "strip t2 \<noteq> []"
    using assms(6,7) by simp
  have step: "process_chat_input e r w files =
         Inr (True, r\<lparr>last_chat_hash := Some (md5_hexdigest second)\<rparr>,
              snd (route_message r w (snd ?c) ?m (fst ?c)))"
    using changed_chat_poll [where files=files and bytes=second and decoded=t2 and r=r and e=e
        and w=w, OF assms(2) assms(5) nonempty new] assms(6) by simp
  have digest: "get_file_hash files chat_file = Some (md5_hexdigest second)"
    using assms(2) by (simp add: get_file_hash_def)
  have envelope: "snd (route_message r w (snd ?c) ?m (fst ?c))
                    (inbox_file (dict_get (routing_rules r) (fst ?c) ''helper'')) =
                  Some (routed_content (now_route w) (fst ?c) ?m)"
    by (rule route_message_envelope)
  show ?thesis
    using step digest envelope
    by (simp add: Let_def classify_intent_result classification_request_def
        classification_prompt_def routed_content_def)
qed

theorem whitespace_variant_rerouted_witness:
  "get_file_hash [chat_file \<mapsto> ''hello'' @ [CHR 0xC2, CHR 0xA0]] chat_file =
     Some ''83b72d1195855fa466870b82e5e3d0bf'' \<and>
   (\<exists>files'.
      process_chat_input demo_env
        (demo_router\<lparr>last_chat_hash := Some ''5d41402abc4b2a76b9719d911017c592''\<rparr>)
        (demo_io (ApiOk ''general'')) [chat_file \<mapsto> ''hello'' @ [CHR 0xC2, CHR 0xA0]] =
        Inr (True, demo_router\<lparr>last_chat_hash := Some ''83b72d1195855fa466870b82e5e3d0bf''\<rparr>, files') \<and>
      files' (inbox_file ''helper'') =
        Some (''# New Request - 2025-01-01 10:00:01\<newline>'' @
              ''\<newline>'' @
              ''**Intent:** general\<newline>'' @
              ''**Original Message:**\<newline>'' @
              ''\<newline>'' @
              ''hello\<newline>'' @
              ''\<newline>'' @
              ''---\<newline>''))"
proof -
  let ?second = "''hello'' @ [CHR 0xC2, CHR 0xA0]"
  let ?r = "demo_router\<lparr>last_chat_hash := Some ''5d41402abc4b2a76b9719d911017c592''\<rparr>"
  let ?w = "demo_io (ApiOk ''general'')"
  let ?files = "[chat_file \<mapsto> ?second]"
  have d1: "md5_hexdigest ''hello'' = ''5d41402abc4b2a76b9719d911017c592''"
    by code_simp
  have d2: "md5_hexdigest ?second = ''83b72d1195855fa466870b82e5e3d0bf''"
    by code_simp
  have 1: "last_chat_hash ?r = Some (md5_hexdigest ''hello'')"
    by (simp add: d1)
  have 2: "?files chat_file = Some ?second"
    by simp
  have 3: "md5_hexdigest ?second \<noteq> md5_hexdigest ''hello''"
    unfolding d1 d2 by simp
  have 4: "read_text ''hello'' = Some ''hello''" and 5: "read_text ?second = Some ?second"
    by code_simp+
  have s1: "strip ''hello'' = ''hello''" and s2: "strip ?second = ''hello''"
    by code_simp+
  have 6: "strip ?second = strip ''hello''"
    using s1 s2 by simp
  have 7: "strip ''hello'' \<noteq> []"
    using s1 by simp
  have n: "str_lower demo_env (strip ''general'') = ''general''"
    by code_simp
  have k: "dict_contains (routing_rules demo_router) ''general''"
    "dict_get (routing_rules demo_router) ''general'' ''helper'' = ''helper''"
    by (simp_all add: demo_router_def default_rules_def dict_contains_def dict_get_def)
  have a: "messages_create ?w = (\<lambda>req. ApiOk ''general'')"
    "now_route ?w = ''2025-01-01 10:00:01''"
    by (simp_all add: demo_io_def)
  show ?thesis
    using whitespace_variant_rerouted [where r="?r" and e=demo_env and w="?w" and files="?files"
        and first="''hello''" and second="?second" and ?t1.0="''hello''" and ?t2.0="?second",
        OF 1 2 3 4 5 6 7]
    unfolding d2 Let_def a by (simp add: n k s1)
qed


section \<open>The classifier accepts the keys of the loaded rules\<close>

text \<open>
  C10. Every value the classifier returns is \<open>general\<close> or a key of the routing rules the
  router holds; an answer of the service is accepted exactly when its trimmed, lower-cased
  text is a key of those rules, which are the ones read from the persisted file when the
  router starts. When \<open>general\<close> is not a key of the rules, routing it yields \<open>helper\<close>.
\<close>

theorem classify_validated_against_loaded_rules:
  "(fst (classify_intent e r w files message) = ''general'' \<or>
    dict_contains (routing_rules r) (fst (classify_intent e r w files message))) \<and>
   (messages_create w (classification_request message) = ApiOk answer \<longrightarrow>
    fst (classify_intent e r w files message) =
      (if dict_contains (routing_rules r) (str_lower e (strip answer))
       then str_lower e (strip answer) else ''general'')) \<and>
   (\<not> dict_contains (routing_rules r) ''general'' \<longrightarrow>
    fst (route_message r w files message ''general'') = ''helper'') \<and>
   (files0 rules_file = Some content \<and> json_load e content = Some rules \<longrightarrow>
    router_init e files0 = Inr (\<lparr>routing_rules = rules, last_chat_hash = None\<rparr>, files0))"
proof (intro conjI impI)
  show "fst (classify_intent e r w files message) = ''general'' \<or>
    dict_contains (routing_rules r) (fst (classify_intent e r w files message))"
    by (simp add: classify_intent_result split: api_result.splits)
next
  assume "messages_create w (classification_request message) = ApiOk answer"
  then show "fst (classify_intent e r w files message) =
      (if dict_contains (routing_rules r) (str_lower e (strip answer))
       then str_lower e (strip answer) else ''general'')"
    by (simp add: classify_intent_result)
next
  assume "\<not> dict_contains (routing_rules r) ''general''"
  then show "fst (route_message r w files message ''general'') = ''helper''"
    by (simp add: route_message_target dict_get_def dict_contains_def)
next
  assume "files0 rules_file = Some content \<and> json_load e content = Some rules"
  then show "router_init e files0 = Inr (\<lparr>routing_rules = rules, last_chat_hash = None\<rparr>, files0)"
    by (simp add: router_init_def load_routing_rules_def)
qed

theorem classify_validated_against_loaded_rules_witness:
  "router_init demo_env [rules_file \<mapsto> json_dump_indent2 edited_rules] =
     Inr (\<lparr>routing_rules = edited_rules, last_chat_hash = None\<rparr>,
          [rules_file \<mapsto> json_dump_indent2 edited_rules]) \<and>
   fst (classify_intent demo_env \<lparr>routing_rules = edited_rules, last_chat_hash = None\<rparr>
          (demo_io (ApiOk ''Deploy'')) Map.empty ''ship it'') = ''deploy'' \<and>
   fst (classify_intent demo_env demo_router (demo_io (ApiOk ''Deploy'')) Map.empty ''ship it'') =
     ''general'' \<and>
   fst (classify_intent demo_env \<lparr>routing_rules = edited_rules, last_chat_hash = None\<rparr>
          (demo_io (ApiOk ''testing'')) Map.empty ''ship it'') = ''general'' \<and>
   fst (route_message \<lparr>routing_rules = edited_rules, last_chat_hash = None\<rparr>
          (demo_io (ApiOk ''testing'')) Map.empty ''ship it'' ''general'') = ''helper''"
proof -
  let ?r = "\<lparr>routing_rules = edited_rules, last_chat_hash = None\<rparr>"
  let ?files0 = "[rules_file \<mapsto> json_dump_indent2 edited_rules]"
  have n: "str_lower demo_env (strip ''Deploy'') = ''deploy''"
    "str_lower demo_env (strip ''testing'') = ''testing''"
    by code_simp+
  have k: "dict_contains edited_rules ''deploy''" "\<not> dict_contains edited_rules ''testing''"
    "\<not> dict_contains edited_rules ''general''" "\<not> dict_contains default_rules ''deploy''"
    by (simp_all add: dict_contains_def edited_rules_def default_rules_def)
  have a: "messages_create (demo_io (ApiOk ''Deploy'')) (classification_request ''ship it'') =
           ApiOk ''Deploy''"
    "messages_create (demo_io (ApiOk ''testing'')) (classification_request ''ship it'') =
           ApiOk ''testing''"
    by (simp_all add: demo_io_def)
  have l: "?files0 rules_file = Some (json_dump_indent2 edited_rules) \<and>
           json_load demo_env (json_dump_indent2 edited_rules) = Some edited_rules"
    using demo_load_edited by simp
  show ?thesis
    using classify_validated_against_loaded_rules [where r="?r" and w="demo_io (ApiOk ''Deploy'')"
        and files=Map.empty and message="''ship it''" and answer="''Deploy''" and e=demo_env
        and files0="?files0" and content="json_dump_indent2 edited_rules" and rules=edited_rules]
      classify_validated_against_loaded_rules [where r=demo_router and w="demo_io (ApiOk ''Deploy'')"
        and files=Map.empty and message="''ship it''" and answer="''Deploy''" and e=demo_env
        and files0="?files0" and content="json_dump_indent2 edited_rules" and rules=edited_rules]
      classify_validated_against_loaded_rules [where r="?r" and w="demo_io (ApiOk ''testing'')"
        and files=Map.empty and message="''ship it''" and answer="''testing''" and e=demo_env
        and files0="?files0" and content="json_dump_indent2 edited_rules" and rules=edited_rules]
      n k a l
    by (simp add: demo_router_def)
qed


end
